theory Spec2Isabelle
  imports Complex_Main "HOL-Library.AList"
begin

section \<open>Data model of the transaction builder\<close>

text \<open>
  The embedded program is the class \<open>MeshTxBuilderCore\<close> of
  \<^verbatim>\<open>mesh-transaction/src/mesh-tx-builder/tx-builder-core.ts\<close>: a builder with one
  pending slot for each channel (input, output, mint, withdrawal, collateral) and a
  body that the slots are flushed into.
\<close>

text \<open>
  Modelled from the spec: the data types of the builder (\<open>TxIn\<close>, \<open>MintItem\<close>,
  \<open>Withdrawal\<close>, \<open>Certificate\<close>, \<open>Output\<close>, \<open>Redeemer\<close>, \<open>UTxO\<close>,
  \<open>MeshTxBuilderBody\<close>, \<open>Action\<close> and their parts) are declared in
  \<^verbatim>\<open>@meshsdk/common\<close>, which is not among the sources. They are written here after
  section 3 of the spec, with the fields that the object literals of the class give them.
  A tagged union (an object with a \<open>type\<close> field) is a datatype, an object with optional
  fields is a record of options, an array is a list.

  Objects are values, with one exception. The \<open>exUnits\<close> object of a redeemer is
  stored by reference and \<open>updateRedeemer\<close> assigns to its fields in place, so it
  matters which redeemers hold one and the same object. \<open>Own v\<close> is an object that the
  class has made itself (the copy \<open>{ ...DEFAULT_REDEEMER_BUDGET }\<close> of the default
  parameter), held by this redeemer alone, with contents \<open>v\<close>. \<open>Ref a\<close> is the object
  at address \<open>a\<close> that the caller passed in; its contents are in the caller's store,
  and every redeemer that was given this object holds \<open>Ref a\<close>.

  Numbers: a quantity is a decimal string in the source; here it is the integer the
  string denotes. Indices and slots are natural numbers. A JavaScript number is an
  IEEE double: the model has the rationals for the values of finite doubles, and
  rounds the result of each arithmetic operation to the nearest double
  (\<open>round_double\<close> below). Budgets and execution units are integers (that a double
  holds).
\<close>

datatype LanguageVersion = V1 | V2 | V3

record Asset =
  unit :: string
  quantity :: int

record TxInParameter =
  txHash :: string
  txIndex :: nat
  amount :: "Asset list option"
  address :: "string option"

datatype BuilderDataType = Mesh | JSON | CBOR

text \<open>
  \<open>BuilderData["content"]\<close> is a Plutus \<open>Data\<close> value, a raw object or a string. The only
  distinction the class makes is \<open>typeof rawData === "object"\<close>; an object is kept by a
  name for it.
\<close>

datatype BuilderContent = ObjectContent string | StringContent string

record BuilderData =
  data_type :: BuilderDataType
  content :: BuilderContent

record Budget =
  mem :: int
  steps :: int

datatype ExUnits = Own Budget | Ref nat

record Redeemer =
  data :: BuilderData
  exUnits :: ExUnits

text \<open>
  Script sources. \<open>ScriptProvided code version\<close> is
  \<open>{type: "Provided", script: {code, version}}\<close>;
  \<open>ScriptInline txHash txIndex scriptHash version scriptSize\<close> is the Plutus reference
  \<open>{type: "Inline", ...}\<close>; \<open>SimpleProvided scriptCode\<close> and
  \<open>SimpleInline txHash txIndex simpleScriptHash\<close> are the native-script shapes.
\<close>

datatype ScriptSource =
    ScriptProvided string LanguageVersion
  | ScriptInline string nat "string option" "LanguageVersion option" string
  | SimpleProvided string
  | SimpleInline string nat string

datatype DatumSource =
    DatumProvided BuilderData
  | DatumInline string nat

record ScriptTxInParameter =
  scriptSource :: "ScriptSource option"
  datumSource :: "DatumSource option"
  redeemer :: "Redeemer option"

text \<open>
  \<open>TxIn\<close>: \<open>{type: "PubKey", txIn}\<close>, \<open>{type: "SimpleScript", txIn, simpleScriptTxIn:
  {scriptSource}}\<close> and \<open>{type: "Script", txIn, scriptTxIn}\<close>.
\<close>

datatype TxIn =
    PubKey TxInParameter
  | SimpleScript TxInParameter ScriptSource
  | Script TxInParameter ScriptTxInParameter

fun txIn_of :: "TxIn \<Rightarrow> TxInParameter" where
  "txIn_of (PubKey p) = p"
| "txIn_of (SimpleScript p src) = p"
| "txIn_of (Script p st) = p"

datatype Datum = DatumHash BuilderData | DatumInlineValue BuilderData

record Output =
  output_address :: string
  output_amount :: "Asset list"
  datum :: "Datum option"
  referenceScript :: "(string \<times> LanguageVersion) option"

datatype MintType = Plutus | Native

record MintItem =
  mint_type :: MintType
  policyId :: string
  assetName :: string
  mint_amount :: int
  mint_redeemer :: "Redeemer option"
  mint_scriptSource :: "ScriptSource option"

datatype WithdrawalType = PubKeyWithdrawal | SimpleScriptWithdrawal | ScriptWithdrawal

record Withdrawal =
  withdrawal_type :: WithdrawalType
  withdrawal_address :: string
  coin :: string
  withdrawal_scriptSource :: "ScriptSource option"
  withdrawal_redeemer :: "Redeemer option"

typedecl PoolParams

datatype CertificateType =
    RegisterPool PoolParams
  | RegisterStake string
  | DelegateStake string string
  | DeregisterStake string
  | RetirePool string nat

datatype Certificate =
    BasicCertificate CertificateType
  | ScriptCertificate CertificateType "ScriptSource option" "Redeemer option"
  | SimpleScriptCertificate CertificateType "ScriptSource option"

fun certType :: "Certificate \<Rightarrow> CertificateType" where
  "certType (BasicCertificate ct) = ct"
| "certType (ScriptCertificate ct src r) = ct"
| "certType (SimpleScriptCertificate ct src) = ct"

text \<open>A UTxO, with \<open>input.txHash\<close> written \<open>input_txHash\<close> and so on.\<close>

record UTxO =
  input_txHash :: string
  input_outputIndex :: nat
  utxo_address :: string
  utxo_amount :: "Asset list"
  utxo_datum :: "string option"
  utxo_referenceScript :: "string option"

record SelectionConfig =
  threshold :: string
  strategy :: string
  includeTxFees :: bool

record ValidityRange =
  range_invalidBefore :: "nat option"
  range_invalidHereafter :: "nat option"

record MeshTxBuilderBody =
  inputs :: "TxIn list"
  outputs :: "Output list"
  collaterals :: "TxIn list"
  requiredSignatures :: "string list"
  referenceInputs :: "(string \<times> nat) list"
  mints :: "MintItem list"
  body_changeAddress :: string
  metadata :: "(string \<times> string) list"
  validityRange :: ValidityRange
  certificates :: "Certificate list"
  withdrawals :: "Withdrawal list"
  body_signingKey :: "string list"
  extraInputs :: "UTxO list"
  selectionConfig :: SelectionConfig

text \<open>
  The protocol parameters are an object; a patch (\<open>Partial<Protocol>\<close>) is an object
  with some of its properties. Both are maps from property names to values, and the
  object spread \<open>{...a, ...b}\<close> is \<open>a ++ b\<close>.
\<close>

datatype jsval = Undefined | Number rat | String string

type_synonym Protocol = "string \<rightharpoonup> jsval"

datatype error = Error string | TypeError string

type_synonym heap = "nat \<Rightarrow> Budget"

datatype RedeemerTag = SPEND | MINT | CERT | REWARD

record Action =
  tag :: RedeemerTag
  index :: nat
  budget :: Budget

section \<open>JavaScript numbers\<close>

text \<open>
  The arithmetic of the source is that of IEEE-754 doubles with rounding to nearest,
  ties to even. \<open>rne\<close> rounds a rational to the nearest integer, ties to even.
  \<open>exponent a\<close> is the binary exponent of a positive rational, the \<open>e\<close> with
  \<open>2^e \<le> a < 2^(e+1)\<close>. \<open>round_double q\<close> is the double nearest to \<open>q\<close>: a
  multiple of \<open>2^(e-52)\<close>, or of \<open>2^(-1074)\<close> in the subnormal range. A result of
  magnitude \<open>2^1024\<close> or more is \<open>Infinity\<close> in the source; the model has no value
  for it, and no number in the theorems comes near that range.
\<close>

definition rne :: "rat \<Rightarrow> int" where
  "rne x =
     (let f = \<lfloor>x\<rfloor>; r = x - of_int f
      in if r < 1 / 2 then f
         else if 1 / 2 < r then f + 1
         else if even f then f else f + 1)"

function ilog2 :: "int \<Rightarrow> int" where
  "ilog2 n = (if n < 2 then 0 else 1 + ilog2 (n div 2))"
  by pat_completeness auto
termination
  by (relation "measure nat") auto

declare ilog2.simps [simp del]

definition pow2 :: "int \<Rightarrow> rat" where
  "pow2 p = (if 0 \<le> p then 2 ^ nat p else 1 / 2 ^ nat (- p))"

definition exponent :: "rat \<Rightarrow> int" where
  "exponent a =
     (if 1 \<le> a then ilog2 \<lfloor>a\<rfloor>
      else let k = ilog2 \<lfloor>1 / a\<rfloor>
           in if a * pow2 k = 1 then - k else - k - 1)"

definition round_double :: "rat \<Rightarrow> rat" where
  "round_double q =
     (if q = 0 then 0
      else let a = \<bar>q\<bar>; ulp = pow2 (max (exponent a - 52) (- 1074))
           in sgn q * (of_int (rne (a / ulp)) * ulp))"

text \<open>
  \<open>Number(s)\<close> for a decimal string that denotes the integer \<open>n\<close>, and the sum and
  difference of two doubles with integer values. The results are integers again (a
  double of magnitude \<open>2^52\<close> or more is an integer), so the floor only changes the
  type.
\<close>

definition toNumber :: "int \<Rightarrow> int" where
  "toNumber n = \<lfloor>round_double (of_int n)\<rfloor>"

definition plus_double :: "int \<Rightarrow> int \<Rightarrow> int" where
  "plus_double x y = \<lfloor>round_double (of_int x + of_int y)\<rfloor>"

definition minus_double :: "int \<Rightarrow> int \<Rightarrow> int" where
  "minus_double x y = \<lfloor>round_double (of_int x - of_int y)\<rfloor>"

text \<open>
  What the class imports and this repository does not define is a parameter of the
  model: the constants \<open>DEFAULT_PROTOCOL_PARAMETERS\<close> and \<open>DEFAULT_REDEEMER_BUDGET\<close>
  and the function \<open>emptyTxBuilderBody\<close> of \<^verbatim>\<open>@meshsdk/common\<close> (it returns a new
  object at every call; here it is that value), \<open>JSONBig.stringify\<close>, and the four
  methods of \<open>new UtxoSelection(threshold, includeTxFees)\<close>, each taking the required
  assets (a \<open>Map\<close>, here an association list in insertion order) and the candidate
  UTxOs, and returning the selection or raising.
\<close>

type_synonym selector =
  "string \<Rightarrow> bool \<Rightarrow> (string \<times> int) list \<Rightarrow> UTxO list \<Rightarrow> error + UTxO list"

record common =
  DEFAULT_PROTOCOL_PARAMETERS :: Protocol
  DEFAULT_REDEEMER_BUDGET :: Budget
  emptyTxBuilderBody :: MeshTxBuilderBody
  JSONBig_stringify :: "BuilderContent \<Rightarrow> string"
  keepRelevant :: selector
  largestFirst :: selector
  largestFirstMultiAsset :: selector
  experimental :: selector

record MeshTxBuilderCore =
  txEvaluationMultiplier :: rat
  txOutput :: "Output option"
  addingPlutusScriptInput :: bool
  plutusSpendingScriptVersion :: "LanguageVersion option"
  addingPlutusMint :: bool
  plutusMintingScriptVersion :: "LanguageVersion option"
  addingPlutusWithdrawal :: bool
  plutusWithdrawalScriptVersion :: "LanguageVersion option"
  this_protocolParams :: Protocol
  mintItem :: "MintItem option"
  txInQueueItem :: "TxIn option"
  withdrawalItem :: "Withdrawal option"
  collateralQueueItem :: "TxIn option"
  refScriptTxInQueueItem :: "(string \<times> nat) option"
  meshTxBuilderBody :: MeshTxBuilderBody

text \<open>
  A method mutates the builder and either returns it or throws. The model returns the
  builder as the call leaves it, with the error when one was thrown: a thrown error does
  not undo the assignments made before it.
\<close>

type_synonym outcome = "error option \<times> MeshTxBuilderCore"

definition ok :: "MeshTxBuilderCore \<Rightarrow> outcome" where
  "ok s = (None, s)"

definition throw :: "string \<Rightarrow> MeshTxBuilderCore \<Rightarrow> outcome" where
  "throw msg s = (Some (Error msg), s)"

definition andThen :: "outcome \<Rightarrow> (MeshTxBuilderCore \<Rightarrow> outcome) \<Rightarrow> outcome" where
  "andThen r f = (case r of (None, s) \<Rightarrow> f s | (Some e, s) \<Rightarrow> (Some e, s))"

text \<open>
  The constructor. The literal \<open>1.1\<close> is the double nearest to 11/10.
\<close>

definition MeshTxBuilderCore :: "common \<Rightarrow> MeshTxBuilderCore" where
  "MeshTxBuilderCore c =
     \<lparr> txEvaluationMultiplier = round_double (11 / 10),
       txOutput = None,
       addingPlutusScriptInput = False,
       plutusSpendingScriptVersion = None,
       addingPlutusMint = False,
       plutusMintingScriptVersion = None,
       addingPlutusWithdrawal = False,
       plutusWithdrawalScriptVersion = None,
       this_protocolParams = DEFAULT_PROTOCOL_PARAMETERS c,
       mintItem = None,
       txInQueueItem = None,
       withdrawalItem = None,
       collateralQueueItem = None,
       refScriptTxInQueueItem = None,
       meshTxBuilderBody = emptyTxBuilderBody c \<rparr>"

section \<open>The private helpers\<close>

definition castRawDataToJsonString :: "common \<Rightarrow> BuilderContent \<Rightarrow> string" where
  "castRawDataToJsonString c rawData =
     (case rawData of
        ObjectContent x \<Rightarrow> JSONBig_stringify c rawData
      | StringContent str \<Rightarrow> str)"

text \<open>
  \<open>castBuilderDataToRedeemer(redeemer, type, exUnits)\<close>. The data type is passed
  explicitly (the source defaults it to \<open>"Mesh"\<close>). The argument \<open>exUnits\<close> is the
  address of the caller's object, which the redeemer then holds, or absent; for an
  absent one the calling method makes a new copy of the default budget.
\<close>

definition castBuilderDataToRedeemer ::
  "common \<Rightarrow> BuilderContent \<Rightarrow> BuilderDataType \<Rightarrow> nat option \<Rightarrow> Redeemer" where
  "castBuilderDataToRedeemer c red ty ex =
     (let exUnits = (case ex of None \<Rightarrow> Own (DEFAULT_REDEEMER_BUDGET c) | Some a \<Rightarrow> Ref a) in
      if ty = Mesh then \<lparr> data = \<lparr> data_type = ty, content = red \<rparr>, exUnits = exUnits \<rparr>
      else
        let content = (if ty = JSON then StringContent (castRawDataToJsonString c red) else red)
        in \<lparr> data = \<lparr> data_type = ty, content = content \<rparr>, exUnits = exUnits \<rparr>)"

text \<open>
  \<open>queueInput\<close>. The test \<open>!this.txInQueueItem.scriptTxIn\<close> has no branch here: a
  \<open>Script\<close> input always carries its \<open>scriptTxIn\<close> object.
\<close>

definition queueInput :: "MeshTxBuilderCore \<Rightarrow> outcome" where
  "queueInput s =
     (case txInQueueItem s of
        None \<Rightarrow> throw ''queueInput: Undefined input'' s
      | Some item \<Rightarrow>
          let push = ok (s\<lparr> meshTxBuilderBody :=
                              (meshTxBuilderBody s)\<lparr> inputs := inputs (meshTxBuilderBody s) @ [item] \<rparr>,
                            txInQueueItem := None \<rparr>)
          in (case item of
                Script p st \<Rightarrow>
                  if datumSource st = None then
                    throw ''queueInput: Script input does not contain datum information'' s
                  else if redeemer st = None then
                    throw ''queueInput: Script input does not contain redeemer information'' s
                  else if scriptSource st = None then
                    throw ''queueInput: Script input does not contain script information'' s
                  else push
              | _ \<Rightarrow> push))"

definition queueMint :: "MeshTxBuilderCore \<Rightarrow> outcome" where
  "queueMint s =
     (case mintItem s of
        None \<Rightarrow> throw ''queueMint: Undefined mint'' s
      | Some item \<Rightarrow>
          if mint_scriptSource item = None then
            throw ''queueMint: Missing mint script information'' s
          else
            ok (s\<lparr> meshTxBuilderBody :=
                     (meshTxBuilderBody s)\<lparr> mints := mints (meshTxBuilderBody s) @ [item] \<rparr>,
                   mintItem := None \<rparr>))"

definition queueWithdrawal :: "MeshTxBuilderCore \<Rightarrow> outcome" where
  "queueWithdrawal s =
     (case withdrawalItem s of
        None \<Rightarrow> throw ''queueWithdrawal: Undefined withdrawal'' s
      | Some item \<Rightarrow>
          let push = ok (s\<lparr> meshTxBuilderBody :=
                              (meshTxBuilderBody s)\<lparr> withdrawals :=
                                 withdrawals (meshTxBuilderBody s) @ [item] \<rparr>,
                            withdrawalItem := None \<rparr>)
          in if withdrawal_type item = ScriptWithdrawal then
               (if withdrawal_scriptSource item = None then
                  throw ''queueWithdrawal: Missing withdrawal script information'' s
                else if withdrawal_redeemer item = None then
                  throw ''queueWithdrawal: Missing withdrawal redeemer information'' s
                else push)
             else if withdrawal_type item = SimpleScriptWithdrawal then
               (if withdrawal_scriptSource item = None then
                  throw ''queueWithdrawal: Missing withdrawal script information'' s
                else push)
             else push)"

definition queueAllLastItem :: "MeshTxBuilderCore \<Rightarrow> outcome" where
  "queueAllLastItem s0 =
     (let s1 = (case txOutput s0 of
                  Some out \<Rightarrow>
                    s0\<lparr> meshTxBuilderBody :=
                          (meshTxBuilderBody s0)\<lparr> outputs := outputs (meshTxBuilderBody s0) @ [out] \<rparr>,
                        txOutput := None \<rparr>
                | None \<Rightarrow> s0)
      in andThen (if txInQueueItem s1 \<noteq> None then queueInput s1 else ok s1)
           (\<lambda>s2.
              let s3 = (case collateralQueueItem s2 of
                          Some col \<Rightarrow>
                            s2\<lparr> meshTxBuilderBody :=
                                  (meshTxBuilderBody s2)\<lparr> collaterals :=
                                     collaterals (meshTxBuilderBody s2) @ [col] \<rparr>,
                                collateralQueueItem := None \<rparr>
                        | None \<Rightarrow> s2)
              in andThen (if mintItem s3 \<noteq> None then queueMint s3 else ok s3)
                   (\<lambda>s4. if withdrawalItem s4 \<noteq> None then queueWithdrawal s4 else ok s4)))"

section \<open>The input channel\<close>

definition txIn ::
  "string \<Rightarrow> nat \<Rightarrow> Asset list option \<Rightarrow> string option \<Rightarrow> MeshTxBuilderCore \<Rightarrow> outcome" where
  "txIn h i am ad s0 =
     andThen (if txInQueueItem s0 \<noteq> None then queueInput s0 else ok s0)
       (\<lambda>s.
          let p = \<lparr> txHash = h, txIndex = i, amount = am, address = ad \<rparr>;
              item = (if \<not> addingPlutusScriptInput s then PubKey p
                      else Script p \<lparr> scriptSource = None, datumSource = None, redeemer = None \<rparr>)
          in ok (s\<lparr> txInQueueItem := Some item, addingPlutusScriptInput := False \<rparr>))"

text \<open>
  \<open>txInScript\<close>: two \<open>if\<close> statements in a row, on \<open>"PubKey"\<close> and then on
  \<open>"Script"\<close>. After the first has replaced the item by a \<open>"SimpleScript"\<close> one the
  second does not apply, and neither applies to a \<open>"SimpleScript"\<close> item.
\<close>

definition txInScript :: "string \<Rightarrow> MeshTxBuilderCore \<Rightarrow> outcome" where
  "txInScript scriptCbor s0 =
     (case txInQueueItem s0 of
        None \<Rightarrow> throw ''Undefined input'' s0
      | Some item0 \<Rightarrow>
          let s1 = (case item0 of
                      PubKey p \<Rightarrow> s0\<lparr> txInQueueItem := Some (SimpleScript p (SimpleProvided scriptCbor)) \<rparr>
                    | _ \<Rightarrow> s0);
              s2 = (case txInQueueItem s1 of
                      Some (Script p st) \<Rightarrow>
                        s1\<lparr> txInQueueItem := Some (Script p (st\<lparr> scriptSource := Some
                               (ScriptProvided scriptCbor
                                  (case plutusSpendingScriptVersion s1 of
                                     None \<Rightarrow> V2 | Some v \<Rightarrow> v)) \<rparr>)) \<rparr>
                    | _ \<Rightarrow> s1)
          in ok s2)"

definition txInDatumValue ::
  "common \<Rightarrow> BuilderContent \<Rightarrow> BuilderDataType \<Rightarrow> MeshTxBuilderCore \<Rightarrow> outcome" where
  "txInDatumValue c dat ty s =
     (case txInQueueItem s of
        None \<Rightarrow> throw ''Undefined input'' s
      | Some (PubKey p) \<Rightarrow> throw ''Datum value attempted to be called a non script input'' s
      | Some (SimpleScript p src) \<Rightarrow>
          throw ''Datum value attempted to be called on a simple script input'' s
      | Some (Script p st) \<Rightarrow>
          let content = (if ty = JSON then StringContent (castRawDataToJsonString c dat) else dat)
          in if ty = Mesh then
               ok (s\<lparr> txInQueueItem := Some (Script p (st\<lparr> datumSource :=
                        Some (DatumProvided \<lparr> data_type = ty, content = dat \<rparr>) \<rparr>)) \<rparr>)
             else
               ok (s\<lparr> txInQueueItem := Some (Script p (st\<lparr> datumSource :=
                        Some (DatumProvided \<lparr> data_type = ty, content = content \<rparr>) \<rparr>)) \<rparr>))"

text \<open>
  \<open>txInInlineDatumPresent\<close>: the guard \<open>txHash && txIndex.toString()\<close> holds exactly
  when \<open>txHash\<close> is not the empty string.
\<close>

definition txInInlineDatumPresent :: "MeshTxBuilderCore \<Rightarrow> outcome" where
  "txInInlineDatumPresent s =
     (case txInQueueItem s of
        None \<Rightarrow> throw ''Undefined input'' s
      | Some (PubKey p) \<Rightarrow>
          throw ''Inline datum present attempted to be called a non script input'' s
      | Some (SimpleScript p src) \<Rightarrow>
          throw ''Inline datum present attempted to be called on a simple script input'' s
      | Some (Script p st) \<Rightarrow>
          if txHash p \<noteq> [] then
            ok (s\<lparr> txInQueueItem := Some (Script p (st\<lparr> datumSource :=
                     Some (DatumInline (txHash p) (txIndex p)) \<rparr>)) \<rparr>)
          else ok s)"

definition txInRedeemerValue ::
  "common \<Rightarrow> BuilderContent \<Rightarrow> BuilderDataType \<Rightarrow> nat option \<Rightarrow> MeshTxBuilderCore \<Rightarrow> outcome" where
  "txInRedeemerValue c red ty ex s =
     (case txInQueueItem s of
        None \<Rightarrow> throw ''Undefined input'' s
      | Some (PubKey p) \<Rightarrow>
          throw ''Spending tx in reference redeemer attempted to be called a non script input'' s
      | Some (SimpleScript p src) \<Rightarrow>
          throw ''Spending tx in reference redeemer attempted to be called on a simple script input'' s
      | Some (Script p st) \<Rightarrow>
          ok (s\<lparr> txInQueueItem := Some (Script p (st\<lparr> redeemer :=
                   Some (castBuilderDataToRedeemer c red ty ex) \<rparr>)) \<rparr>))"

definition spendingPlutusScriptV1 :: "MeshTxBuilderCore \<Rightarrow> outcome" where
  "spendingPlutusScriptV1 s =
     ok (s\<lparr> addingPlutusScriptInput := True, plutusSpendingScriptVersion := Some V1 \<rparr>)"

definition spendingPlutusScriptV2 :: "MeshTxBuilderCore \<Rightarrow> outcome" where
  "spendingPlutusScriptV2 s =
     ok (s\<lparr> addingPlutusScriptInput := True, plutusSpendingScriptVersion := Some V2 \<rparr>)"

definition spendingPlutusScriptV3 :: "MeshTxBuilderCore \<Rightarrow> outcome" where
  "spendingPlutusScriptV3 s =
     ok (s\<lparr> addingPlutusScriptInput := True, plutusSpendingScriptVersion := Some V3 \<rparr>)"

definition spendingTxInReference ::
  "string \<Rightarrow> nat \<Rightarrow> string option \<Rightarrow> MeshTxBuilderCore \<Rightarrow> outcome" where
  "spendingTxInReference h i spendingScriptHash s =
     (case txInQueueItem s of
        None \<Rightarrow> throw ''Undefined input'' s
      | Some (PubKey p) \<Rightarrow>
          throw ''Spending tx in reference attempted to be called a non script input'' s
      | Some (SimpleScript p src) \<Rightarrow>
          throw ''Spending tx in reference attempted to be called on a simple script input'' s
      | Some (Script p st) \<Rightarrow>
          ok (s\<lparr> txInQueueItem := Some (Script p (st\<lparr> scriptSource := Some
                   (ScriptInline h i spendingScriptHash
                      (Some (case plutusSpendingScriptVersion s of None \<Rightarrow> V2 | Some v \<Rightarrow> v))
                      ''0'') \<rparr>)) \<rparr>))"

definition spendingReferenceTxInInlineDatumPresent :: "MeshTxBuilderCore \<Rightarrow> outcome" where
  "spendingReferenceTxInInlineDatumPresent s = txInInlineDatumPresent s"

definition spendingReferenceTxInRedeemerValue ::
  "common \<Rightarrow> BuilderContent \<Rightarrow> BuilderDataType \<Rightarrow> nat option \<Rightarrow> MeshTxBuilderCore \<Rightarrow> outcome" where
  "spendingReferenceTxInRedeemerValue c red ty ex s = txInRedeemerValue c red ty ex s"

definition readOnlyTxInReference :: "string \<Rightarrow> nat \<Rightarrow> MeshTxBuilderCore \<Rightarrow> outcome" where
  "readOnlyTxInReference h i s =
     ok (s\<lparr> meshTxBuilderBody :=
              (meshTxBuilderBody s)\<lparr> referenceInputs :=
                 referenceInputs (meshTxBuilderBody s) @ [(h, i)] \<rparr> \<rparr>)"

section \<open>The output channel\<close>

definition txOut :: "string \<Rightarrow> Asset list \<Rightarrow> MeshTxBuilderCore \<Rightarrow> outcome" where
  "txOut ad am s0 =
     (let s1 = (case txOutput s0 of
                  Some out \<Rightarrow>
                    s0\<lparr> meshTxBuilderBody :=
                          (meshTxBuilderBody s0)\<lparr> outputs := outputs (meshTxBuilderBody s0) @ [out] \<rparr>,
                        txOutput := None \<rparr>
                | None \<Rightarrow> s0)
      in ok (s1\<lparr> txOutput := Some \<lparr> output_address = ad, output_amount = am,
                                      datum = None, referenceScript = None \<rparr> \<rparr>))"

definition txOutDatumHashValue ::
  "common \<Rightarrow> BuilderContent \<Rightarrow> BuilderDataType \<Rightarrow> MeshTxBuilderCore \<Rightarrow> outcome" where
  "txOutDatumHashValue c dat ty s =
     (case txOutput s of
        Some out \<Rightarrow>
          if ty = Mesh then
            ok (s\<lparr> txOutput := Some (out\<lparr> datum :=
                     Some (DatumHash \<lparr> data_type = ty, content = dat \<rparr>) \<rparr>) \<rparr>)
          else
            let content = (if ty = JSON then StringContent (castRawDataToJsonString c dat) else dat)
            in ok (s\<lparr> txOutput := Some (out\<lparr> datum :=
                        Some (DatumHash \<lparr> data_type = ty, content = content \<rparr>) \<rparr>) \<rparr>)
      | None \<Rightarrow> ok s)"

definition txOutInlineDatumValue ::
  "common \<Rightarrow> BuilderContent \<Rightarrow> BuilderDataType \<Rightarrow> MeshTxBuilderCore \<Rightarrow> outcome" where
  "txOutInlineDatumValue c dat ty s =
     (case txOutput s of
        Some out \<Rightarrow>
          if ty = Mesh then
            ok (s\<lparr> txOutput := Some (out\<lparr> datum :=
                     Some (DatumInlineValue \<lparr> data_type = ty, content = dat \<rparr>) \<rparr>) \<rparr>)
          else
            let content = (if ty = JSON then StringContent (castRawDataToJsonString c dat) else dat)
            in ok (s\<lparr> txOutput := Some (out\<lparr> datum :=
                        Some (DatumInlineValue \<lparr> data_type = ty, content = content \<rparr>) \<rparr>) \<rparr>)
      | None \<Rightarrow> ok s)"

definition txOutReferenceScript ::
  "string \<Rightarrow> LanguageVersion \<Rightarrow> MeshTxBuilderCore \<Rightarrow> outcome" where
  "txOutReferenceScript scriptCbor version s =
     (case txOutput s of
        Some out \<Rightarrow> ok (s\<lparr> txOutput := Some (out\<lparr> referenceScript := Some (scriptCbor, version) \<rparr>) \<rparr>)
      | None \<Rightarrow> ok s)"

section \<open>The mint channel\<close>

definition mintPlutusScriptV1 :: "MeshTxBuilderCore \<Rightarrow> outcome" where
  "mintPlutusScriptV1 s =
     ok (s\<lparr> addingPlutusMint := True, plutusMintingScriptVersion := Some V1 \<rparr>)"

definition mintPlutusScriptV2 :: "MeshTxBuilderCore \<Rightarrow> outcome" where
  "mintPlutusScriptV2 s =
     ok (s\<lparr> addingPlutusMint := True, plutusMintingScriptVersion := Some V2 \<rparr>)"

definition mintPlutusScriptV3 :: "MeshTxBuilderCore \<Rightarrow> outcome" where
  "mintPlutusScriptV3 s =
     ok (s\<lparr> addingPlutusMint := True, plutusMintingScriptVersion := Some V3 \<rparr>)"

definition mint :: "int \<Rightarrow> string \<Rightarrow> string \<Rightarrow> MeshTxBuilderCore \<Rightarrow> outcome" where
  "mint qty policy name s0 =
     andThen (if mintItem s0 \<noteq> None then queueMint s0 else ok s0)
       (\<lambda>s. ok (s\<lparr> mintItem := Some
                      \<lparr> mint_type = (if addingPlutusMint s then Plutus else Native),
                        policyId = policy,
                        assetName = name,
                        mint_amount = qty,
                        mint_redeemer = None,
                        mint_scriptSource = None \<rparr>,
                    addingPlutusMint := False \<rparr>))"

text \<open>
  \<open>mintingScript\<close> and \<open>mintTxInReference\<close>: the test \<open>!this.mintItem.type\<close> has no
  branch, the type of a mint item being \<open>"Plutus"\<close> or \<open>"Native"\<close>.
\<close>

definition mintingScript :: "string \<Rightarrow> MeshTxBuilderCore \<Rightarrow> outcome" where
  "mintingScript scriptCBOR s =
     (case mintItem s of
        None \<Rightarrow> throw ''Undefined mint'' s
      | Some item \<Rightarrow>
          let item1 = (if mint_type item = Native
                       then item\<lparr> mint_scriptSource := Some (SimpleProvided scriptCBOR) \<rparr>
                       else item);
              item2 = (if mint_type item1 = Plutus
                       then item1\<lparr> mint_scriptSource := Some
                              (ScriptProvided scriptCBOR
                                 (case plutusMintingScriptVersion s of None \<Rightarrow> V2 | Some v \<Rightarrow> v)) \<rparr>
                       else item1)
          in ok (s\<lparr> mintItem := Some item2 \<rparr>))"

definition mintTxInReference :: "string \<Rightarrow> nat \<Rightarrow> MeshTxBuilderCore \<Rightarrow> outcome" where
  "mintTxInReference h i s =
     (case mintItem s of
        None \<Rightarrow> throw ''Undefined mint'' s
      | Some item \<Rightarrow>
          if mint_type item = Native then
            throw ''Mint tx in reference can only be used on plutus script tokens'' s
          else if policyId item = [] then
            throw ''PolicyId information missing from mint asset'' s
          else
            ok (s\<lparr> mintItem := Some (item\<lparr> mint_scriptSource := Some
                     (ScriptInline h i (Some []) (plutusMintingScriptVersion s) ''0'') \<rparr>) \<rparr>))"

definition mintReferenceTxInRedeemerValue ::
  "common \<Rightarrow> BuilderContent \<Rightarrow> BuilderDataType \<Rightarrow> nat option \<Rightarrow> MeshTxBuilderCore \<Rightarrow> outcome" where
  "mintReferenceTxInRedeemerValue c red ty ex s =
     (case mintItem s of
        None \<Rightarrow> throw ''Undefined mint'' s
      | Some item \<Rightarrow>
          if mint_type item = Native then
            throw ''Mint tx in reference can only be used on plutus script tokens'' s
          else if mint_type item = Plutus \<and> policyId item = [] then
            throw ''PolicyId information missing from mint asset'' s
          else
            ok (s\<lparr> mintItem := Some (item\<lparr> mint_redeemer :=
                     Some (castBuilderDataToRedeemer c red ty ex) \<rparr>) \<rparr>))"

definition mintRedeemerValue ::
  "common \<Rightarrow> BuilderContent \<Rightarrow> BuilderDataType \<Rightarrow> nat option \<Rightarrow> MeshTxBuilderCore \<Rightarrow> outcome" where
  "mintRedeemerValue c red ty ex s = mintReferenceTxInRedeemerValue c red ty ex s"

definition requiredSignerHash :: "string \<Rightarrow> MeshTxBuilderCore \<Rightarrow> outcome" where
  "requiredSignerHash pubKeyHash s =
     ok (s\<lparr> meshTxBuilderBody :=
              (meshTxBuilderBody s)\<lparr> requiredSignatures :=
                 requiredSignatures (meshTxBuilderBody s) @ [pubKeyHash] \<rparr> \<rparr>)"

section \<open>The collateral channel\<close>

definition txInCollateral ::
  "string \<Rightarrow> nat \<Rightarrow> Asset list option \<Rightarrow> string option \<Rightarrow> MeshTxBuilderCore \<Rightarrow> outcome" where
  "txInCollateral h i am ad s0 =
     (let s1 = (case collateralQueueItem s0 of
                  Some col \<Rightarrow>
                    s0\<lparr> meshTxBuilderBody :=
                          (meshTxBuilderBody s0)\<lparr> collaterals :=
                             collaterals (meshTxBuilderBody s0) @ [col] \<rparr> \<rparr>
                | None \<Rightarrow> s0)
      in ok (s1\<lparr> collateralQueueItem := Some
                    (PubKey \<lparr> txHash = h, txIndex = i, amount = am, address = ad \<rparr>) \<rparr>))"

section \<open>The withdrawal channel\<close>

definition withdrawalPlutusScriptV1 :: "MeshTxBuilderCore \<Rightarrow> outcome" where
  "withdrawalPlutusScriptV1 s =
     ok (s\<lparr> addingPlutusWithdrawal := True, plutusWithdrawalScriptVersion := Some V1 \<rparr>)"

definition withdrawalPlutusScriptV2 :: "MeshTxBuilderCore \<Rightarrow> outcome" where
  "withdrawalPlutusScriptV2 s =
     ok (s\<lparr> addingPlutusWithdrawal := True, plutusWithdrawalScriptVersion := Some V2 \<rparr>)"

definition withdrawalPlutusScriptV3 :: "MeshTxBuilderCore \<Rightarrow> outcome" where
  "withdrawalPlutusScriptV3 s =
     ok (s\<lparr> addingPlutusWithdrawal := True, plutusWithdrawalScriptVersion := Some V3 \<rparr>)"

text \<open>\<open>withdrawal\<close> reads the flag \<open>addingPlutusWithdrawal\<close> and does not assign it.\<close>

definition withdrawal :: "string \<Rightarrow> string \<Rightarrow> MeshTxBuilderCore \<Rightarrow> outcome" where
  "withdrawal rewardAddress cn s0 =
     andThen (if withdrawalItem s0 \<noteq> None then queueWithdrawal s0 else ok s0)
       (\<lambda>s.
          if addingPlutusWithdrawal s then
            ok (s\<lparr> withdrawalItem := Some
                     \<lparr> withdrawal_type = ScriptWithdrawal, withdrawal_address = rewardAddress,
                       coin = cn, withdrawal_scriptSource = None, withdrawal_redeemer = None \<rparr> \<rparr>)
          else
            ok (s\<lparr> withdrawalItem := Some
                     \<lparr> withdrawal_type = PubKeyWithdrawal, withdrawal_address = rewardAddress,
                       coin = cn, withdrawal_scriptSource = None, withdrawal_redeemer = None \<rparr> \<rparr>))"

definition withdrawalScript :: "string \<Rightarrow> MeshTxBuilderCore \<Rightarrow> outcome" where
  "withdrawalScript scriptCbor s =
     (case withdrawalItem s of
        None \<Rightarrow> throw ''withdrawalScript: Undefined withdrawal'' s
      | Some item \<Rightarrow>
          if withdrawal_type item = PubKeyWithdrawal then
            ok (s\<lparr> withdrawalItem := Some
                     \<lparr> withdrawal_type = SimpleScriptWithdrawal,
                       withdrawal_address = withdrawal_address item,
                       coin = coin item,
                       withdrawal_scriptSource = Some (SimpleProvided scriptCbor),
                       withdrawal_redeemer = None \<rparr> \<rparr>)
          else
            ok (s\<lparr> withdrawalItem := Some (item\<lparr> withdrawal_scriptSource := Some
                     (ScriptProvided scriptCbor
                        (case plutusWithdrawalScriptVersion s of None \<Rightarrow> V2 | Some v \<Rightarrow> v)) \<rparr>) \<rparr>))"

text \<open>
  \<open>withdrawalTxInReference\<close>: \<open>scriptSize || "0"\<close> is \<open>"0"\<close> for an absent and for an
  empty \<open>scriptSize\<close>.
\<close>

definition withdrawalTxInReference ::
  "string \<Rightarrow> nat \<Rightarrow> string option \<Rightarrow> string option \<Rightarrow> MeshTxBuilderCore \<Rightarrow> outcome" where
  "withdrawalTxInReference h i withdrawalScriptHash scriptSize s =
     (case withdrawalItem s of
        None \<Rightarrow> throw ''withdrawalTxInReference: Undefined withdrawal'' s
      | Some item \<Rightarrow>
          if withdrawal_type item = PubKeyWithdrawal then
            throw ''withdrawalTxInReference: Adding script reference to pub key withdrawal'' s
          else
            ok (s\<lparr> withdrawalItem := Some (item\<lparr> withdrawal_scriptSource := Some
                     (ScriptInline h i withdrawalScriptHash
                        (Some (case plutusWithdrawalScriptVersion s of None \<Rightarrow> V2 | Some v \<Rightarrow> v))
                        (case scriptSize of
                           None \<Rightarrow> ''0''
                         | Some sz \<Rightarrow> if sz = [] then ''0'' else sz)) \<rparr>) \<rparr>))"

definition withdrawalRedeemerValue ::
  "common \<Rightarrow> BuilderContent \<Rightarrow> BuilderDataType \<Rightarrow> nat option \<Rightarrow> MeshTxBuilderCore \<Rightarrow> outcome" where
  "withdrawalRedeemerValue c red ty ex s =
     (case withdrawalItem s of
        None \<Rightarrow> throw ''withdrawalRedeemerValue: Undefined withdrawal'' s
      | Some item \<Rightarrow>
          if \<not> (withdrawal_type item = ScriptWithdrawal) then
            throw ''withdrawalRedeemerValue: Adding redeemer to non plutus withdrawal'' s
          else
            ok (s\<lparr> withdrawalItem := Some (item\<lparr> withdrawal_redeemer :=
                     Some (castBuilderDataToRedeemer c red ty ex) \<rparr>) \<rparr>))"

section \<open>The certificate channel\<close>

definition pushCertificate :: "Certificate \<Rightarrow> MeshTxBuilderCore \<Rightarrow> MeshTxBuilderCore" where
  "pushCertificate cert s =
     s\<lparr> meshTxBuilderBody :=
          (meshTxBuilderBody s)\<lparr> certificates := certificates (meshTxBuilderBody s) @ [cert] \<rparr> \<rparr>"

text \<open>
  \<open>certificates.pop()\<close>: the removed last element and the builder without it, or
  \<open>None\<close> (for \<open>undefined\<close>) and the builder as it is when the list is empty.
\<close>

definition popCertificate :: "MeshTxBuilderCore \<Rightarrow> Certificate option \<times> MeshTxBuilderCore" where
  "popCertificate s =
     (if certificates (meshTxBuilderBody s) = [] then (None, s)
      else (Some (last (certificates (meshTxBuilderBody s))),
            s\<lparr> meshTxBuilderBody :=
                 (meshTxBuilderBody s)\<lparr> certificates :=
                    butlast (certificates (meshTxBuilderBody s)) \<rparr> \<rparr>))"

definition registerPoolCertificate :: "PoolParams \<Rightarrow> MeshTxBuilderCore \<Rightarrow> outcome" where
  "registerPoolCertificate poolParams s =
     ok (pushCertificate (BasicCertificate (RegisterPool poolParams)) s)"

definition registerStakeCertificate :: "string \<Rightarrow> MeshTxBuilderCore \<Rightarrow> outcome" where
  "registerStakeCertificate rewardAddress s =
     ok (pushCertificate (BasicCertificate (RegisterStake rewardAddress)) s)"

definition delegateStakeCertificate :: "string \<Rightarrow> string \<Rightarrow> MeshTxBuilderCore \<Rightarrow> outcome" where
  "delegateStakeCertificate rewardAddress poolId s =
     ok (pushCertificate (BasicCertificate (DelegateStake rewardAddress poolId)) s)"

definition deregisterStakeCertificate :: "string \<Rightarrow> MeshTxBuilderCore \<Rightarrow> outcome" where
  "deregisterStakeCertificate rewardAddress s =
     ok (pushCertificate (BasicCertificate (DeregisterStake rewardAddress)) s)"

definition retirePoolCertificate :: "string \<Rightarrow> nat \<Rightarrow> MeshTxBuilderCore \<Rightarrow> outcome" where
  "retirePoolCertificate poolId epoch s =
     ok (pushCertificate (BasicCertificate (RetirePool poolId epoch)) s)"

definition certificateScript ::
  "string \<Rightarrow> LanguageVersion option \<Rightarrow> MeshTxBuilderCore \<Rightarrow> outcome" where
  "certificateScript scriptCbor version s0 =
     (case popCertificate s0 of
        (None, s) \<Rightarrow>
          throw ''Certificate script attempted to be defined, but no certificate was found'' s
      | (Some currentCert, s) \<Rightarrow>
          (case version of
             None \<Rightarrow>
               ok (pushCertificate
                     (SimpleScriptCertificate (certType currentCert)
                        (Some (SimpleProvided scriptCbor))) s)
           | Some v \<Rightarrow>
               ok (pushCertificate
                     (ScriptCertificate (certType currentCert)
                        (Some (ScriptProvided scriptCbor v))
                        (case currentCert of
                           ScriptCertificate ct src r \<Rightarrow> r
                         | _ \<Rightarrow> None)) s)))"

definition certificateTxInReference ::
  "string \<Rightarrow> nat \<Rightarrow> string \<Rightarrow> LanguageVersion option \<Rightarrow> string \<Rightarrow> MeshTxBuilderCore \<Rightarrow> outcome" where
  "certificateTxInReference h i spendingScriptHash version scriptSize s0 =
     (case popCertificate s0 of
        (None, s) \<Rightarrow>
          throw ''Certificate script reference attempted to be defined, but no certificate was found'' s
      | (Some currentCert, s) \<Rightarrow>
          (case version of
             None \<Rightarrow>
               ok (pushCertificate
                     (SimpleScriptCertificate (certType currentCert)
                        (Some (SimpleInline h i spendingScriptHash))) s)
           | Some v \<Rightarrow>
               ok (pushCertificate
                     (ScriptCertificate (certType currentCert)
                        (Some (ScriptInline h i (Some spendingScriptHash) None scriptSize))
                        (case currentCert of
                           ScriptCertificate ct src r \<Rightarrow> r
                         | _ \<Rightarrow> None)) s)))"

text \<open>
  \<open>certificateRedeemerValue\<close> pops the last certificate before it looks at its type,
  and pushes it back only on the path that does not throw.
\<close>

definition certificateRedeemerValue ::
  "common \<Rightarrow> BuilderContent \<Rightarrow> BuilderDataType \<Rightarrow> nat option \<Rightarrow> MeshTxBuilderCore \<Rightarrow> outcome" where
  "certificateRedeemerValue c red ty ex s0 =
     (case popCertificate s0 of
        (None, s) \<Rightarrow>
          throw ''Certificate redeemer value attempted to be defined, but no certificate was found'' s
      | (Some currentCert, s) \<Rightarrow>
          (case currentCert of
             ScriptCertificate ct src r \<Rightarrow>
               ok (pushCertificate
                     (ScriptCertificate ct src (Some (castBuilderDataToRedeemer c red ty ex))) s)
           | _ \<Rightarrow>
               throw ''Redeemer value attempted to be defined, but certificate has no script defined, or no script version was defined'' s))"

section \<open>Global operations\<close>

definition changeAddress :: "string \<Rightarrow> MeshTxBuilderCore \<Rightarrow> outcome" where
  "changeAddress addr s =
     ok (s\<lparr> meshTxBuilderBody := (meshTxBuilderBody s)\<lparr> body_changeAddress := addr \<rparr> \<rparr>)"

definition invalidBefore :: "nat \<Rightarrow> MeshTxBuilderCore \<Rightarrow> outcome" where
  "invalidBefore slot s =
     ok (s\<lparr> meshTxBuilderBody :=
              (meshTxBuilderBody s)\<lparr> validityRange :=
                 (validityRange (meshTxBuilderBody s))\<lparr> range_invalidBefore := Some slot \<rparr> \<rparr> \<rparr>)"

definition invalidHereafter :: "nat \<Rightarrow> MeshTxBuilderCore \<Rightarrow> outcome" where
  "invalidHereafter slot s =
     ok (s\<lparr> meshTxBuilderBody :=
              (meshTxBuilderBody s)\<lparr> validityRange :=
                 (validityRange (meshTxBuilderBody s))\<lparr> range_invalidHereafter := Some slot \<rparr> \<rparr> \<rparr>)"

definition metadataValue :: "common \<Rightarrow> string \<Rightarrow> BuilderContent \<Rightarrow> MeshTxBuilderCore \<Rightarrow> outcome" where
  "metadataValue c tg md s =
     (let metadataString = JSONBig_stringify c md
      in ok (s\<lparr> meshTxBuilderBody :=
                 (meshTxBuilderBody s)\<lparr> metadata :=
                    metadata (meshTxBuilderBody s) @ [(tg, metadataString)] \<rparr> \<rparr>))"

definition signingKey :: "string \<Rightarrow> MeshTxBuilderCore \<Rightarrow> outcome" where
  "signingKey skeyHex s =
     ok (s\<lparr> meshTxBuilderBody :=
              (meshTxBuilderBody s)\<lparr> body_signingKey :=
                 body_signingKey (meshTxBuilderBody s) @ [skeyHex] \<rparr> \<rparr>)"

definition selectUtxosFrom ::
  "UTxO list \<Rightarrow> string \<Rightarrow> string \<Rightarrow> bool \<Rightarrow> MeshTxBuilderCore \<Rightarrow> outcome" where
  "selectUtxosFrom extra strat thr fees s =
     ok (s\<lparr> meshTxBuilderBody :=
              (meshTxBuilderBody s)\<lparr> extraInputs := extra,
                 selectionConfig :=
                   (selectionConfig (meshTxBuilderBody s))\<lparr> threshold := thr, strategy := strat,
                      includeTxFees := fees \<rparr> \<rparr> \<rparr>)"

text \<open>
  \<open>protocolParams\<close>: \<open>{ ...DEFAULT_PROTOCOL_PARAMETERS, ...params }\<close>, stored in
  \<open>_protocolParams\<close>.
\<close>

definition protocolParams :: "common \<Rightarrow> Protocol \<Rightarrow> MeshTxBuilderCore \<Rightarrow> outcome" where
  "protocolParams c params s =
     (let updatedParams = DEFAULT_PROTOCOL_PARAMETERS c ++ params
      in ok (s\<lparr> this_protocolParams := updatedParams \<rparr>))"

definition emptyTxBuilderBody_method :: "common \<Rightarrow> MeshTxBuilderCore \<Rightarrow> outcome" where
  "emptyTxBuilderBody_method c s = ok (s\<lparr> meshTxBuilderBody := emptyTxBuilderBody c \<rparr>)"

definition reset :: "common \<Rightarrow> MeshTxBuilderCore \<Rightarrow> outcome" where
  "reset c s =
     ok (s\<lparr> meshTxBuilderBody := emptyTxBuilderBody c,
            txEvaluationMultiplier := round_double (11 / 10),
            txOutput := None,
            addingPlutusScriptInput := False,
            plutusSpendingScriptVersion := None,
            addingPlutusMint := False,
            plutusMintingScriptVersion := None,
            addingPlutusWithdrawal := False,
            plutusWithdrawalScriptVersion := None,
            this_protocolParams := DEFAULT_PROTOCOL_PARAMETERS c,
            mintItem := None,
            txInQueueItem := None,
            withdrawalItem := None,
            collateralQueueItem := None,
            refScriptTxInQueueItem := None \<rparr>)"

section \<open>The evaluation reconciler\<close>

text \<open>
  \<open>Math.floor(budget.mem * this.txEvaluationMultiplier)\<close> and the same for
  \<open>steps\<close>, assigned to the two fields of an \<open>exUnits\<close> object with contents \<open>ex\<close>.
  The product is a product of doubles.
\<close>

definition scaledExUnits :: "rat \<Rightarrow> Budget \<Rightarrow> Budget \<Rightarrow> Budget" where
  "scaledExUnits m bud ex =
     ex\<lparr> mem := \<lfloor>round_double (of_int (mem bud) * m)\<rfloor>,
         steps := \<lfloor>round_double (of_int (steps bud) * m)\<rfloor> \<rparr>"

text \<open>
  The two assignments on the \<open>exUnits\<close> object of a redeemer: on the redeemer's own
  object they change the redeemer, on an object of the caller they change the store,
  and with it what every holder of that object reads.
\<close>

definition assignExUnits :: "rat \<Rightarrow> Budget \<Rightarrow> Redeemer \<Rightarrow> heap \<Rightarrow> Redeemer \<times> heap" where
  "assignExUnits m bud r h =
     (case exUnits r of
        Own v \<Rightarrow> (r\<lparr> exUnits := Own (scaledExUnits m bud v) \<rparr>, h)
      | Ref a \<Rightarrow> (r, h(a := scaledExUnits m bud (h a))))"

text \<open>
  The callback of \<open>txEvaluation.forEach\<close>, on the body and the store. An index
  outside the array reads \<open>undefined\<close>, and reading \<open>.type\<close> of it throws a
  \<open>TypeError\<close>.
\<close>

definition updateRedeemer_each ::
  "MeshTxBuilderCore \<Rightarrow> MeshTxBuilderBody \<Rightarrow> heap \<Rightarrow> Action \<Rightarrow>
   error option \<times> MeshTxBuilderBody \<times> heap" where
  "updateRedeemer_each this b h ev =
     (let m = txEvaluationMultiplier this;
          undef = (Some (TypeError ''Cannot read properties of undefined (reading 'type')''), b, h)
      in case tag ev of
        SPEND \<Rightarrow>
          if index ev < length (inputs b) then
            (case inputs b ! index ev of
               Script p st \<Rightarrow>
                 (case redeemer st of
                    Some r \<Rightarrow>
                      (case assignExUnits m (budget ev) r h of
                         (r', h') \<Rightarrow>
                           (None,
                            b\<lparr> inputs := (inputs b)[index ev :=
                                 Script p (st\<lparr> redeemer := Some r' \<rparr>)] \<rparr>,
                            h'))
                  | None \<Rightarrow> (None, b, h))
             | _ \<Rightarrow> (None, b, h))
          else undef
      | MINT \<Rightarrow>
          if index ev < length (mints b) then
            (let mt = mints b ! index ev in
             if mint_type mt = Plutus then
               (case mint_redeemer mt of
                  Some r \<Rightarrow>
                    (case assignExUnits m (budget ev) r h of
                       (r', h') \<Rightarrow>
                         (None,
                          b\<lparr> mints := (mints b)[index ev := mt\<lparr> mint_redeemer := Some r' \<rparr>] \<rparr>,
                          h'))
                | None \<Rightarrow> (None, b, h))
             else (None, b, h))
          else undef
      | CERT \<Rightarrow>
          if index ev < length (certificates b) then
            (case certificates b ! index ev of
               ScriptCertificate ct src (Some r) \<Rightarrow>
                 (case assignExUnits m (budget ev) r h of
                    (r', h') \<Rightarrow>
                      (None,
                       b\<lparr> certificates := (certificates b)[index ev :=
                            ScriptCertificate ct src (Some r')] \<rparr>,
                       h'))
             | _ \<Rightarrow> (None, b, h))
          else undef
      | REWARD \<Rightarrow>
          if index ev < length (withdrawals b) then
            (let w = withdrawals b ! index ev in
             if withdrawal_type w = ScriptWithdrawal then
               (case withdrawal_redeemer w of
                  Some r \<Rightarrow>
                    (case assignExUnits m (budget ev) r h of
                       (r', h') \<Rightarrow>
                         (None,
                          b\<lparr> withdrawals := (withdrawals b)[index ev :=
                               w\<lparr> withdrawal_redeemer := Some r' \<rparr>] \<rparr>,
                          h'))
                | None \<Rightarrow> (None, b, h))
             else (None, b, h))
          else undef)"

fun updateRedeemer ::
  "MeshTxBuilderCore \<Rightarrow> MeshTxBuilderBody \<Rightarrow> heap \<Rightarrow> Action list \<Rightarrow>
   error option \<times> MeshTxBuilderBody \<times> heap" where
  "updateRedeemer this b h [] = (None, b, h)"
| "updateRedeemer this b h (ev # evs) =
     (case updateRedeemer_each this b h ev of
        (None, b', h') \<Rightarrow> updateRedeemer this b' h' evs
      | (Some e, b', h') \<Rightarrow> (Some e, b', h'))"

section \<open>Selection and deduplication\<close>

text \<open>
  The required-assets map. Its values are strings written by \<open>String\<close> and read back
  by \<open>Number\<close>; the model keeps, for a unit, the double that the stored string reads
  back as. \<open>Number(map.get(unit)) || 0\<close> is that double, or 0 for a unit not in the
  map. A quantity is converted with \<open>Number\<close> before it is added or subtracted, and
  the sum is a sum of doubles. \<open>map.set\<close> replaces the value of a key in place and
  adds a new key at the end.
\<close>

definition existingQuantity :: "(string \<times> int) list \<Rightarrow> string \<Rightarrow> int" where
  "existingQuantity m u = (case map_of m u of None \<Rightarrow> 0 | Some q \<Rightarrow> q)"

definition addAsset :: "(string \<times> int) list \<Rightarrow> Asset \<Rightarrow> (string \<times> int) list" where
  "addAsset m a =
     AList.update (unit a)
       (plus_double (existingQuantity m (unit a)) (toNumber (quantity a))) m"

definition subAsset :: "(string \<times> int) list \<Rightarrow> Asset \<Rightarrow> (string \<times> int) list" where
  "subAsset m a =
     AList.update (unit a)
       (minus_double (existingQuantity m (unit a)) (toNumber (quantity a))) m"

definition requiredAssets :: "MeshTxBuilderBody \<Rightarrow> (string \<times> int) list" where
  "requiredAssets b =
     (let m1 = foldl (\<lambda>m out. foldl addAsset m (output_amount out)) [] (outputs b);
          m2 = foldl (\<lambda>m inp. case amount (txIn_of inp) of
                                 None \<Rightarrow> m
                               | Some am \<Rightarrow> foldl subAsset m am) m1 (inputs b);
          m3 = foldl (\<lambda>m mt. subAsset m \<lparr> unit = policyId mt @ assetName mt,
                                          quantity = mint_amount mt \<rparr>) m2 (mints b)
      in m3)"

text \<open>
  The \<open>switch\<close> on the strategy. The case \<open>"keepRelevant"\<close> has no \<open>break\<close>: after
  \<open>keepRelevant\<close> has returned, control continues into the case \<open>"largestFirst"\<close>,
  which assigns \<open>selectedInputs\<close> again.
\<close>

definition selectInputs :: "common \<Rightarrow> MeshTxBuilderBody \<Rightarrow> error + UTxO list" where
  "selectInputs c b =
     (let cfg = selectionConfig b;
          req = requiredAssets b;
          use = (\<lambda>sel. sel (threshold cfg) (includeTxFees cfg) req (extraInputs b))
      in if strategy cfg = ''keepRelevant'' then
           (case use (keepRelevant c) of
              Inl e \<Rightarrow> Inl e
            | Inr selectedInputs \<Rightarrow> use (largestFirst c))
         else if strategy cfg = ''largestFirst'' then use (largestFirst c)
         else if strategy cfg = ''largestFirstMultiAsset'' then use (largestFirstMultiAsset c)
         else use (experimental c))"

definition pubKeyTxIn :: "UTxO \<Rightarrow> TxIn" where
  "pubKeyTxIn u =
     PubKey \<lparr> txHash = input_txHash u, txIndex = input_outputIndex u,
              amount = Some (utxo_amount u), address = Some (utxo_address u) \<rparr>"

definition addUtxosFromSelection :: "common \<Rightarrow> MeshTxBuilderCore \<Rightarrow> outcome" where
  "addUtxosFromSelection c s =
     (case selectInputs c (meshTxBuilderBody s) of
        Inl e \<Rightarrow> (Some e, s)
      | Inr selectedInputs \<Rightarrow>
          ok (s\<lparr> meshTxBuilderBody :=
                   (meshTxBuilderBody s)\<lparr> inputs :=
                      inputs (meshTxBuilderBody s) @ map pubKeyTxIn selectedInputs \<rparr> \<rparr>))"

text \<open>The decimal numeral of an index, for the template string of \<open>getTxInId\<close>.\<close>

function toString :: "nat \<Rightarrow> string" where
  "toString n =
     (if n < 10 then [char_of (48 + n)]
      else toString (n div 10) @ [char_of (48 + n mod 10)])"
  by pat_completeness auto
termination
  by (relation "measure (\<lambda>n. n)") auto

declare toString.simps [simp del]

definition getTxInId :: "TxInParameter \<Rightarrow> string" where
  "getTxInId p = txHash p @ ''#'' @ toString (txIndex p)"

text \<open>
  The loop of \<open>removeDuplicateInputs\<close>, with its four variables: the counter, the
  array \<open>inputs\<close> (spliced in place), \<open>currentTxInIds\<close> and \<open>addedInputs\<close>. After
  \<open>splice(i, 1)\<close> the counter is decremented and then incremented by the loop header,
  so the next round reads the same position. No statement of the loop adds to
  \<open>currentTxInIds\<close>.
\<close>

function removeDuplicateInputs_loop ::
  "nat \<Rightarrow> TxIn list \<Rightarrow> string list \<Rightarrow> TxIn list \<Rightarrow> TxIn list" where
  "removeDuplicateInputs_loop i ins currentTxInIds addedInputs =
     (if i < length ins then
        (if getTxInId (txIn_of (ins ! i)) \<in> set currentTxInIds then
           removeDuplicateInputs_loop i (take i ins @ drop (Suc i) ins) currentTxInIds addedInputs
         else
           removeDuplicateInputs_loop (Suc i) ins currentTxInIds (addedInputs @ [ins ! i]))
      else addedInputs)"
  by pat_completeness auto
termination
  by (relation "measure (\<lambda>(i, ins, ids, added). length ins - i)") auto

declare removeDuplicateInputs_loop.simps [simp del]

definition removeDuplicateInputs :: "MeshTxBuilderCore \<Rightarrow> outcome" where
  "removeDuplicateInputs s =
     (let addedInputs = removeDuplicateInputs_loop 0 (inputs (meshTxBuilderBody s)) [] []
      in ok (s\<lparr> meshTxBuilderBody := (meshTxBuilderBody s)\<lparr> inputs := addedInputs \<rparr> \<rparr>))"

section \<open>Sequences of calls\<close>

text \<open>
  One constructor for each method of the class that a caller or the subclass invokes,
  with its arguments, grouped by channel.
\<close>

datatype input_call =
    Call_txIn string nat "Asset list option" "string option"
  | Call_txInScript string
  | Call_txInDatumValue BuilderContent BuilderDataType
  | Call_txInInlineDatumPresent
  | Call_txInRedeemerValue BuilderContent BuilderDataType "nat option"
  | Call_spendingPlutusScriptV1
  | Call_spendingPlutusScriptV2
  | Call_spendingPlutusScriptV3
  | Call_spendingTxInReference string nat "string option"
  | Call_spendingReferenceTxInInlineDatumPresent
  | Call_spendingReferenceTxInRedeemerValue BuilderContent BuilderDataType "nat option"
  | Call_readOnlyTxInReference string nat

datatype output_call =
    Call_txOut string "Asset list"
  | Call_txOutDatumHashValue BuilderContent BuilderDataType
  | Call_txOutInlineDatumValue BuilderContent BuilderDataType
  | Call_txOutReferenceScript string LanguageVersion

datatype mint_call =
    Call_mintPlutusScriptV1
  | Call_mintPlutusScriptV2
  | Call_mintPlutusScriptV3
  | Call_mint int string string
  | Call_mintingScript string
  | Call_mintTxInReference string nat
  | Call_mintReferenceTxInRedeemerValue BuilderContent BuilderDataType "nat option"
  | Call_mintRedeemerValue BuilderContent BuilderDataType "nat option"

datatype withdrawal_call =
    Call_withdrawalPlutusScriptV1
  | Call_withdrawalPlutusScriptV2
  | Call_withdrawalPlutusScriptV3
  | Call_withdrawal string string
  | Call_withdrawalScript string
  | Call_withdrawalTxInReference string nat "string option" "string option"
  | Call_withdrawalRedeemerValue BuilderContent BuilderDataType "nat option"

datatype certificate_call =
    Call_registerPoolCertificate PoolParams
  | Call_registerStakeCertificate string
  | Call_delegateStakeCertificate string string
  | Call_deregisterStakeCertificate string
  | Call_retirePoolCertificate string nat
  | Call_certificateScript string "LanguageVersion option"
  | Call_certificateTxInReference string nat string "LanguageVersion option" string
  | Call_certificateRedeemerValue BuilderContent BuilderDataType "nat option"

datatype global_call =
    Call_requiredSignerHash string
  | Call_txInCollateral string nat "Asset list option" "string option"
  | Call_changeAddress string
  | Call_invalidBefore nat
  | Call_invalidHereafter nat
  | Call_metadataValue string BuilderContent
  | Call_signingKey string
  | Call_selectUtxosFrom "UTxO list" string string bool
  | Call_protocolParams Protocol

datatype finalize_call =
    Call_queueAllLastItem
  | Call_updateRedeemer heap "Action list"
  | Call_addUtxosFromSelection
  | Call_removeDuplicateInputs
  | Call_emptyTxBuilderBody
  | Call_reset

datatype operation =
    On_input input_call
  | On_output output_call
  | On_mint mint_call
  | On_withdrawal withdrawal_call
  | On_certificate certificate_call
  | On_global global_call
  | On_finalize finalize_call

primrec call_input :: "common \<Rightarrow> input_call \<Rightarrow> MeshTxBuilderCore \<Rightarrow> outcome" where
  "call_input c (Call_txIn h i am ad) = txIn h i am ad"
| "call_input c (Call_txInScript cbor) = txInScript cbor"
| "call_input c (Call_txInDatumValue d ty) = txInDatumValue c d ty"
| "call_input c Call_txInInlineDatumPresent = txInInlineDatumPresent"
| "call_input c (Call_txInRedeemerValue r ty ex) = txInRedeemerValue c r ty ex"
| "call_input c Call_spendingPlutusScriptV1 = spendingPlutusScriptV1"
| "call_input c Call_spendingPlutusScriptV2 = spendingPlutusScriptV2"
| "call_input c Call_spendingPlutusScriptV3 = spendingPlutusScriptV3"
| "call_input c (Call_spendingTxInReference h i sh) = spendingTxInReference h i sh"
| "call_input c Call_spendingReferenceTxInInlineDatumPresent =
     spendingReferenceTxInInlineDatumPresent"
| "call_input c (Call_spendingReferenceTxInRedeemerValue r ty ex) =
     spendingReferenceTxInRedeemerValue c r ty ex"
| "call_input c (Call_readOnlyTxInReference h i) = readOnlyTxInReference h i"

primrec call_output :: "common \<Rightarrow> output_call \<Rightarrow> MeshTxBuilderCore \<Rightarrow> outcome" where
  "call_output c (Call_txOut ad am) = txOut ad am"
| "call_output c (Call_txOutDatumHashValue d ty) = txOutDatumHashValue c d ty"
| "call_output c (Call_txOutInlineDatumValue d ty) = txOutInlineDatumValue c d ty"
| "call_output c (Call_txOutReferenceScript cbor v) = txOutReferenceScript cbor v"

primrec call_mint :: "common \<Rightarrow> mint_call \<Rightarrow> MeshTxBuilderCore \<Rightarrow> outcome" where
  "call_mint c Call_mintPlutusScriptV1 = mintPlutusScriptV1"
| "call_mint c Call_mintPlutusScriptV2 = mintPlutusScriptV2"
| "call_mint c Call_mintPlutusScriptV3 = mintPlutusScriptV3"
| "call_mint c (Call_mint q pol nm) = mint q pol nm"
| "call_mint c (Call_mintingScript cbor) = mintingScript cbor"
| "call_mint c (Call_mintTxInReference h i) = mintTxInReference h i"
| "call_mint c (Call_mintReferenceTxInRedeemerValue r ty ex) =
     mintReferenceTxInRedeemerValue c r ty ex"
| "call_mint c (Call_mintRedeemerValue r ty ex) = mintRedeemerValue c r ty ex"

primrec call_withdrawal :: "common \<Rightarrow> withdrawal_call \<Rightarrow> MeshTxBuilderCore \<Rightarrow> outcome" where
  "call_withdrawal c Call_withdrawalPlutusScriptV1 = withdrawalPlutusScriptV1"
| "call_withdrawal c Call_withdrawalPlutusScriptV2 = withdrawalPlutusScriptV2"
| "call_withdrawal c Call_withdrawalPlutusScriptV3 = withdrawalPlutusScriptV3"
| "call_withdrawal c (Call_withdrawal ra cn) = withdrawal ra cn"
| "call_withdrawal c (Call_withdrawalScript cbor) = withdrawalScript cbor"
| "call_withdrawal c (Call_withdrawalTxInReference h i sh sz) =
     withdrawalTxInReference h i sh sz"
| "call_withdrawal c (Call_withdrawalRedeemerValue r ty ex) = withdrawalRedeemerValue c r ty ex"

primrec call_certificate :: "common \<Rightarrow> certificate_call \<Rightarrow> MeshTxBuilderCore \<Rightarrow> outcome" where
  "call_certificate c (Call_registerPoolCertificate pp) = registerPoolCertificate pp"
| "call_certificate c (Call_registerStakeCertificate ra) = registerStakeCertificate ra"
| "call_certificate c (Call_delegateStakeCertificate ra pid) = delegateStakeCertificate ra pid"
| "call_certificate c (Call_deregisterStakeCertificate ra) = deregisterStakeCertificate ra"
| "call_certificate c (Call_retirePoolCertificate pid ep) = retirePoolCertificate pid ep"
| "call_certificate c (Call_certificateScript cbor v) = certificateScript cbor v"
| "call_certificate c (Call_certificateTxInReference h i sh v sz) =
     certificateTxInReference h i sh v sz"
| "call_certificate c (Call_certificateRedeemerValue r ty ex) =
     certificateRedeemerValue c r ty ex"

primrec call_global :: "common \<Rightarrow> global_call \<Rightarrow> MeshTxBuilderCore \<Rightarrow> outcome" where
  "call_global c (Call_requiredSignerHash h) = requiredSignerHash h"
| "call_global c (Call_txInCollateral h i am ad) = txInCollateral h i am ad"
| "call_global c (Call_changeAddress a) = changeAddress a"
| "call_global c (Call_invalidBefore n) = invalidBefore n"
| "call_global c (Call_invalidHereafter n) = invalidHereafter n"
| "call_global c (Call_metadataValue tg md) = metadataValue c tg md"
| "call_global c (Call_signingKey k) = signingKey k"
| "call_global c (Call_selectUtxosFrom extra strat thr fees) =
     selectUtxosFrom extra strat thr fees"
| "call_global c (Call_protocolParams ps) = protocolParams c ps"

text \<open>
  \<open>updateRedeemer\<close> is given the builder's own body, as the subclass calls it, and
  runs on the store of the caller's objects as it is at the call. What it writes to
  that store is the caller's to keep; the builder holds addresses only.
\<close>

primrec call_finalize :: "common \<Rightarrow> finalize_call \<Rightarrow> MeshTxBuilderCore \<Rightarrow> outcome" where
  "call_finalize c Call_queueAllLastItem = queueAllLastItem"
| "call_finalize c (Call_updateRedeemer h evs) =
     (\<lambda>s. case updateRedeemer s (meshTxBuilderBody s) h evs of
             (e, b, h') \<Rightarrow> (e, s\<lparr> meshTxBuilderBody := b \<rparr>))"
| "call_finalize c Call_addUtxosFromSelection = addUtxosFromSelection c"
| "call_finalize c Call_removeDuplicateInputs = removeDuplicateInputs"
| "call_finalize c Call_emptyTxBuilderBody = emptyTxBuilderBody_method c"
| "call_finalize c Call_reset = reset c"

primrec call :: "common \<Rightarrow> operation \<Rightarrow> MeshTxBuilderCore \<Rightarrow> outcome" where
  "call c (On_input x) = call_input c x"
| "call c (On_output x) = call_output c x"
| "call c (On_mint x) = call_mint c x"
| "call c (On_withdrawal x) = call_withdrawal c x"
| "call c (On_certificate x) = call_certificate c x"
| "call c (On_global x) = call_global c x"
| "call c (On_finalize x) = call_finalize c x"

text \<open>
  The builder after a sequence of calls. A call that throws leaves the builder as it
  was at the throw, and the caller may go on with the next call.
\<close>

fun calls :: "common \<Rightarrow> operation list \<Rightarrow> MeshTxBuilderCore \<Rightarrow> MeshTxBuilderCore" where
  "calls c [] s = s"
| "calls c (x # xs) s = calls c xs (snd (call c x s))"

section \<open>A sample environment\<close>

text \<open>
  Concrete values for the imports, on which the theorems below are evaluated: the
  default budget, a protocol-parameter object with two properties, the empty body, a
  stringifier, and the selection strategies.
\<close>

text \<open>
  Modelled from the spec: \<open>UtxoSelection.largestFirst\<close> is not among the sources of
  this repository. It "only considers lovelace. Sort candidates by lovelace quantity
  descending; consume until required lovelace \<open>\<le>\<close> 0. Fails if insufficient"; ties
  are resolved by pool order, and the threshold is added to the required lovelace
  before selection.
\<close>

definition lovelaceOf :: "UTxO \<Rightarrow> int" where
  "lovelaceOf u = sum_list (map quantity (filter (\<lambda>a. unit a = ''lovelace'') (utxo_amount u)))"

definition decimal :: "string \<Rightarrow> int" where
  "decimal str = foldl (\<lambda>n ch. 10 * n + (int (of_char ch) - 48)) 0 str"

fun consume :: "int \<Rightarrow> UTxO list \<Rightarrow> UTxO list option" where
  "consume need [] = (if need \<le> 0 then Some [] else None)"
| "consume need (u # us) =
     (if need \<le> 0 then Some []
      else map_option ((#) u) (consume (need - lovelaceOf u) us))"

definition spec_largestFirst :: selector where
  "spec_largestFirst thr fees req pool =
     (case consume (existingQuantity req ''lovelace'' + decimal thr)
             (sort_key (\<lambda>u. - lovelaceOf u) pool) of
        None \<Rightarrow> Inl (Error ''Insufficient lovelace in the candidate UTxOs'')
      | Some sel \<Rightarrow> Inr sel)"

text \<open>
  Modelled from the spec: \<open>UtxoSelection.keepRelevant\<close> is not among the sources of
  this repository. It is to "prefilter candidates to those containing any required
  non-ADA unit, then run largestFirst on lovelace over the prefiltered set plus the
  rest".
\<close>

definition relevant :: "(string \<times> int) list \<Rightarrow> UTxO \<Rightarrow> bool" where
  "relevant req u =
     list_ex (\<lambda>a. unit a \<noteq> ''lovelace'' \<and> map_of req (unit a) \<noteq> None) (utxo_amount u)"

definition spec_keepRelevant :: selector where
  "spec_keepRelevant thr fees req pool =
     spec_largestFirst thr fees req
       (filter (relevant req) pool @ filter (\<lambda>u. \<not> relevant req u) pool)"

text \<open>
  The spec gives the strategies \<open>largestFirstMultiAsset\<close> and \<open>experimental\<close> in
  outline only. In the sample they raise, and no theorem evaluates them.
\<close>

definition sample_common :: common where
  "sample_common =
     \<lparr> DEFAULT_PROTOCOL_PARAMETERS =
         [''minFeeA'' \<mapsto> Number 44, ''minFeeB'' \<mapsto> Number 155381],
       DEFAULT_REDEEMER_BUDGET = \<lparr> mem = 7000000, steps = 3000000000 \<rparr>,
       emptyTxBuilderBody =
         \<lparr> inputs = [], outputs = [], collaterals = [], requiredSignatures = [],
           referenceInputs = [], mints = [], body_changeAddress = [], metadata = [],
           validityRange = \<lparr> range_invalidBefore = None, range_invalidHereafter = None \<rparr>,
           certificates = [], withdrawals = [], body_signingKey = [], extraInputs = [],
           selectionConfig = \<lparr> threshold = ''0'', strategy = ''experimental'',
                               includeTxFees = True \<rparr> \<rparr>,
       JSONBig_stringify = (\<lambda>x. case x of ObjectContent nm \<Rightarrow> nm
                                         | StringContent str \<Rightarrow> CHR 0x22 # str @ [CHR 0x22]),
       keepRelevant = spec_keepRelevant,
       largestFirst = spec_largestFirst,
       largestFirstMultiAsset = (\<lambda>thr fees req pool. Inl (Error ''largestFirstMultiAsset'')),
       experimental = (\<lambda>thr fees req pool. Inl (Error ''experimental'')) \<rparr>"

section \<open>Flushing a channel\<close>

text \<open>
  The spec's reading of a flush: the pending item of a channel, if there is one, is
  appended to the channel's list of the body and the slot is cleared; an empty slot
  adds nothing. \<open>pending\<close> is the content of a slot as a list, and the five functions
  \<open>flushOutput\<close> to \<open>flushWithdrawal\<close> follow those words. The checks before a flush
  are those of the private methods \<open>queueInput\<close>, \<open>queueMint\<close> and \<open>queueWithdrawal\<close>,
  each written as the error it raises on the pending item, if any; \<open>queueMint\<close>
  looks at the script source only.
\<close>

definition pending :: "'a option \<Rightarrow> 'a list" where
  "pending x = (case x of None \<Rightarrow> [] | Some v \<Rightarrow> [v])"

definition inputError :: "MeshTxBuilderCore \<Rightarrow> error option" where
  "inputError s =
     (case txInQueueItem s of
        Some (Script p st) \<Rightarrow>
          if datumSource st = None then
            Some (Error ''queueInput: Script input does not contain datum information'')
          else if redeemer st = None then
            Some (Error ''queueInput: Script input does not contain redeemer information'')
          else if scriptSource st = None then
            Some (Error ''queueInput: Script input does not contain script information'')
          else None
      | _ \<Rightarrow> None)"

definition mintError :: "MeshTxBuilderCore \<Rightarrow> error option" where
  "mintError s =
     (case mintItem s of
        Some item \<Rightarrow>
          if mint_scriptSource item = None then
            Some (Error ''queueMint: Missing mint script information'')
          else None
      | None \<Rightarrow> None)"

definition withdrawalError :: "MeshTxBuilderCore \<Rightarrow> error option" where
  "withdrawalError s =
     (case withdrawalItem s of
        Some item \<Rightarrow>
          if withdrawal_type item \<noteq> PubKeyWithdrawal \<and> withdrawal_scriptSource item = None then
            Some (Error ''queueWithdrawal: Missing withdrawal script information'')
          else if withdrawal_type item = ScriptWithdrawal \<and> withdrawal_redeemer item = None then
            Some (Error ''queueWithdrawal: Missing withdrawal redeemer information'')
          else None
      | None \<Rightarrow> None)"

definition flushOutput :: "MeshTxBuilderCore \<Rightarrow> MeshTxBuilderCore" where
  "flushOutput s =
     s\<lparr> meshTxBuilderBody :=
          (meshTxBuilderBody s)\<lparr> outputs := outputs (meshTxBuilderBody s) @ pending (txOutput s) \<rparr>,
        txOutput := None \<rparr>"

definition flushInput :: "MeshTxBuilderCore \<Rightarrow> MeshTxBuilderCore" where
  "flushInput s =
     s\<lparr> meshTxBuilderBody :=
          (meshTxBuilderBody s)\<lparr> inputs := inputs (meshTxBuilderBody s) @ pending (txInQueueItem s) \<rparr>,
        txInQueueItem := None \<rparr>"

definition flushCollateral :: "MeshTxBuilderCore \<Rightarrow> MeshTxBuilderCore" where
  "flushCollateral s =
     s\<lparr> meshTxBuilderBody :=
          (meshTxBuilderBody s)\<lparr> collaterals :=
             collaterals (meshTxBuilderBody s) @ pending (collateralQueueItem s) \<rparr>,
        collateralQueueItem := None \<rparr>"

definition flushMint :: "MeshTxBuilderCore \<Rightarrow> MeshTxBuilderCore" where
  "flushMint s =
     s\<lparr> meshTxBuilderBody :=
          (meshTxBuilderBody s)\<lparr> mints := mints (meshTxBuilderBody s) @ pending (mintItem s) \<rparr>,
        mintItem := None \<rparr>"

definition flushWithdrawal :: "MeshTxBuilderCore \<Rightarrow> MeshTxBuilderCore" where
  "flushWithdrawal s =
     s\<lparr> meshTxBuilderBody :=
          (meshTxBuilderBody s)\<lparr> withdrawals :=
             withdrawals (meshTxBuilderBody s) @ pending (withdrawalItem s) \<rparr>,
        withdrawalItem := None \<rparr>"


section \<open>Completeness of script inputs\<close>

text \<open>
  The invariant of the spec on an input of the body: a \<open>Script\<close> input has its script
  source, its datum source and its redeemer.
\<close>

definition scriptInputComplete :: "TxIn \<Rightarrow> bool" where
  "scriptInputComplete x =
     (case x of
        Script p st \<Rightarrow> scriptSource st \<noteq> None \<and> datumSource st \<noteq> None \<and> redeemer st \<noteq> None
      | _ \<Rightarrow> True)"

section \<open>Redeemer slots\<close>

text \<open>
  The spec's reading of the reconciler: an action names a slot by its tag and index,
  \<open>SPEND\<close> in the inputs, \<open>MINT\<close> in the mints, \<open>CERT\<close> in the certificates and
  \<open>REWARD\<close> in the withdrawals. A slot matches when it is of the Plutus kind of its
  list (\<open>Script\<close>, \<open>Plutus\<close>, \<open>ScriptCertificate\<close>, \<open>ScriptWithdrawal\<close>) and has a
  redeemer; \<open>slotRedeemer\<close> is that redeemer. \<open>mapExUnits f\<close> rewrites the \<open>exUnits\<close>
  field of the redeemer of a matching slot and is the identity on any other slot.
\<close>

datatype slot =
    InputSlot TxIn
  | MintSlot MintItem
  | CertificateSlot Certificate
  | WithdrawalSlot Withdrawal








definition scaledBudget :: "rat \<Rightarrow> Budget \<Rightarrow> Budget" where
  "scaledBudget m bud =
     \<lparr> mem = \<lfloor>round_double (of_int (mem bud) * m)\<rfloor>,
       steps = \<lfloor>round_double (of_int (steps bud) * m)\<rfloor> \<rparr>"




section \<open>Evaluation\<close>

text \<open>The definitions that evaluating a sequence of calls unfolds.\<close>

lemmas builder_defs =
  ok_def throw_def andThen_def MeshTxBuilderCore_def castRawDataToJsonString_def
  castBuilderDataToRedeemer_def queueInput_def queueMint_def queueWithdrawal_def
  queueAllLastItem_def txIn_def txInScript_def txInDatumValue_def txInInlineDatumPresent_def
  txInRedeemerValue_def spendingPlutusScriptV1_def spendingPlutusScriptV2_def
  spendingPlutusScriptV3_def spendingTxInReference_def txOut_def mintPlutusScriptV1_def
  mintPlutusScriptV2_def mintPlutusScriptV3_def mint_def mintingScript_def
  mintReferenceTxInRedeemerValue_def mintRedeemerValue_def txInCollateral_def
  pushCertificate_def popCertificate_def registerStakeCertificate_def

section \<open>Doubles\<close>

text \<open>
  An integer of magnitude below \<open>2^53\<close> is a double, so \<open>Number\<close> of its numeral, and
  a sum or difference of doubles with such a value, is exact. The double of the
  literal \<open>1.1\<close> is a little above 11/10; for a budget \<open>n\<close> with \<open>0 \<le> n < 2^48\<close>
  the floor of the double product \<open>n * 1.1\<close> is the floor of the exact \<open>n \<times> 11/10\<close>
  all the same.
\<close>

lemma rne_of_int: "rne (of_int z) = z"
  by (simp add: rne_def)



lemma ilog2_nonneg: "0 \<le> ilog2 n"
  by (induction n rule: ilog2.induct) (subst ilog2.simps, simp)

lemma ilog2_le: "n < 2 ^ Suc k \<Longrightarrow> ilog2 n \<le> int k"
proof (induction k arbitrary: n)
  case 0
  then show ?case by (simp add: ilog2.simps)
next
  case (Suc k)
  show ?case
  proof (cases "n < 2")
    case True
    then show ?thesis by (simp add: ilog2.simps)
  next
    case False
    from Suc.prems have "n div 2 < 2 ^ Suc k" by simp
    from Suc.IH [OF this] False show ?thesis
      by (subst ilog2.simps) simp
  qed
qed

lemma round_double_normal:
  assumes "1 \<le> q" and "\<lfloor>q\<rfloor> < 2 ^ 53"
  shows "round_double q =
           of_int (rne (q * 2 ^ nat (52 - ilog2 \<lfloor>q\<rfloor>))) / 2 ^ nat (52 - ilog2 \<lfloor>q\<rfloor>)"
proof -
  let ?e = "ilog2 \<lfloor>q\<rfloor>"
  have e: "0 \<le> ?e" "?e \<le> 52"
    using ilog2_nonneg [of "\<lfloor>q\<rfloor>"] ilog2_le [of "\<lfloor>q\<rfloor>" 52] assms(2) by simp_all
  have ex: "exponent \<bar>q\<bar> = ?e"
    using assms(1) by (simp add: exponent_def)
  have m: "max (?e - 52) (- 1074) = ?e - 52"
    using e by simp
  have p: "pow2 (?e - 52) = 1 / 2 ^ nat (52 - ?e)"
    using e by (cases "?e = 52") (simp_all add: pow2_def)
  from assms(1) have "q \<noteq> 0" "sgn q = 1" "\<bar>q\<bar> = q"
    by simp_all
  then show ?thesis
    using ex m p by (simp add: round_double_def Let_def)
qed

lemma round_double_of_int_pos:
  assumes "0 \<le> n" and "n < 2 ^ 53"
  shows "round_double (of_int n) = of_int n"
proof (cases "n = 0")
  case True
  then show ?thesis by (simp add: round_double_def)
next
  case False
  with assms have q: "1 \<le> (of_int n :: rat)" "\<lfloor>of_int n :: rat\<rfloor> < 2 ^ 53"
    by simp_all
  let ?j = "nat (52 - ilog2 n)"
  have "(of_int n :: rat) * 2 ^ ?j = of_int (n * 2 ^ ?j)"
    by simp
  then have "rne (of_int n * 2 ^ ?j) = n * 2 ^ ?j"
    by (simp only: rne_of_int)
  with round_double_normal [OF q] show ?thesis
    by simp
qed

lemma round_double_minus: "round_double (- q) = - round_double q"
  by (simp add: round_double_def Let_def)

lemma round_double_of_int:
  assumes "\<bar>n\<bar> < 2 ^ 53"
  shows "round_double (of_int n) = of_int n"
proof (cases "0 \<le> n")
  case True
  with assms show ?thesis by (simp add: round_double_of_int_pos)
next
  case False
  with assms have "round_double (of_int (- n)) = of_int (- n)"
    by (intro round_double_of_int_pos) simp_all
  then show ?thesis
    using round_double_minus [of "of_int n"] by simp
qed


lemma toNumber_exact: "\<bar>n\<bar> < 2 ^ 53 \<Longrightarrow> toNumber n = n"
  by (simp add: toNumber_def round_double_of_int)

lemma plus_double_exact: "\<bar>x + y\<bar> < 2 ^ 53 \<Longrightarrow> plus_double x y = x + y"
  using round_double_of_int [of "x + y"] by (simp add: plus_double_def)

lemma minus_double_exact: "\<bar>x - y\<bar> < 2 ^ 53 \<Longrightarrow> minus_double x y = x - y"
  using round_double_of_int [of "x - y"] by (simp add: minus_double_def)


section \<open>Reset\<close>

text \<open>
  Claim C8. After \<open>reset()\<close> the builder equals a freshly constructed one in every
  field, whatever it was before, and no error is raised; so a second \<open>reset()\<close> right
  after the first gives the same builder as the first alone.
\<close>

theorem reset_is_fresh:
  "reset c s = (None, MeshTxBuilderCore c) \<and> andThen (reset c s) (reset c) = reset c s"
  by (cases s) (simp add: reset_def MeshTxBuilderCore_def ok_def andThen_def)

section \<open>Protocol parameters\<close>

text \<open>
  Claim C10. Calling \<open>protocolParams(p1)\<close> and then \<open>protocolParams(p2)\<close> leaves the
  builder as \<open>protocolParams(p2)\<close> alone does: the stored parameters are the defaults
  overridden by \<open>p2\<close>, and a property that \<open>p2\<close> does not have holds its default value
  again, whether \<open>p1\<close> had set it or not.
\<close>

theorem protocolParams_merges_into_defaults:
  "andThen (protocolParams c p1 s) (protocolParams c p2) = protocolParams c p2 s
   \<and> fst (protocolParams c p2 s) = None
   \<and> this_protocolParams (snd (protocolParams c p2 s)) = DEFAULT_PROTOCOL_PARAMETERS c ++ p2
   \<and> this_protocolParams (snd (andThen (protocolParams c p1 s) (protocolParams c p2))) k =
       (case p2 k of None \<Rightarrow> DEFAULT_PROTOCOL_PARAMETERS c k | Some v \<Rightarrow> Some v)"
  by (simp add: protocolParams_def ok_def andThen_def map_add_def)

text \<open>
  On the sample: a property that the first patch sets and the second does not have
  has its default value after both.
\<close>

theorem protocolParams_merges_into_defaults_witness:
  "this_protocolParams
     (snd (andThen (protocolParams sample_common [''minFeeA'' \<mapsto> Number 50]
                      (MeshTxBuilderCore sample_common))
             (protocolParams sample_common [''minFeeB'' \<mapsto> Number 7]))) ''minFeeA''
   = Some (Number 44)"
  using protocolParams_merges_into_defaults
    [of sample_common "[''minFeeA'' \<mapsto> Number 50]" "MeshTxBuilderCore sample_common"
        "[''minFeeB'' \<mapsto> Number 7]" "''minFeeA''"]
  by (simp add: sample_common_def)

section \<open>Certificates\<close>

text \<open>
  Claim C9. When the list of certificates is not empty and its last certificate is not
  a \<open>ScriptCertificate\<close>, \<open>certificateRedeemerValue\<close> raises its error and leaves the
  builder with that last certificate removed from the list, everything else as it was.
\<close>

theorem certificateRedeemerValue_pops_on_error:
  assumes "certificates (meshTxBuilderBody s) \<noteq> []"
    and "\<forall>ct src r. last (certificates (meshTxBuilderBody s)) \<noteq> ScriptCertificate ct src r"
  shows "certificateRedeemerValue c red ty ex s =
           (Some (Error ''Redeemer value attempted to be defined, but certificate has no script defined, or no script version was defined''),
            s\<lparr> meshTxBuilderBody :=
                 (meshTxBuilderBody s)\<lparr> certificates := butlast (certificates (meshTxBuilderBody s)) \<rparr> \<rparr>)"
  using assms
  by (cases "last (certificates (meshTxBuilderBody s))")
     (simp_all add: certificateRedeemerValue_def popCertificate_def throw_def)

text \<open>
  On the sample: after one stake registration the call raises and the list is empty.
\<close>

theorem certificateRedeemerValue_pops_on_error_witness:
  "certificates (meshTxBuilderBody
      (snd (registerStakeCertificate ''stake_test1uq'' (MeshTxBuilderCore sample_common))))
     = [BasicCertificate (RegisterStake ''stake_test1uq'')]
   \<and> fst (certificateRedeemerValue sample_common (StringContent ''d87980'') CBOR None
          (snd (registerStakeCertificate ''stake_test1uq'' (MeshTxBuilderCore sample_common))))
     \<noteq> None
   \<and> certificates (meshTxBuilderBody
        (snd (certificateRedeemerValue sample_common (StringContent ''d87980'') CBOR None
          (snd (registerStakeCertificate ''stake_test1uq'' (MeshTxBuilderCore sample_common))))))
     = []"
  using certificateRedeemerValue_pops_on_error
    [of "snd (registerStakeCertificate ''stake_test1uq'' (MeshTxBuilderCore sample_common))"
        sample_common "StringContent ''d87980''" CBOR None]
  by (simp add: registerStakeCertificate_def pushCertificate_def ok_def MeshTxBuilderCore_def
      sample_common_def)

section \<open>Flushing the pending slots\<close>

text \<open>
  Each of the three private flushes, guarded by the test for a pending item as every
  caller guards it, is the channel's check followed by the spec's flush.
\<close>

lemma queueInput_cases:
  "(if txInQueueItem s \<noteq> None then queueInput s else ok s) =
     (case inputError s of Some e \<Rightarrow> (Some e, s) | None \<Rightarrow> (None, flushInput s))"
  by (auto simp: queueInput_def inputError_def flushInput_def pending_def throw_def ok_def
      split: option.splits TxIn.splits)

lemma queueMint_cases:
  "(if mintItem s \<noteq> None then queueMint s else ok s) =
     (case mintError s of Some e \<Rightarrow> (Some e, s) | None \<Rightarrow> (None, flushMint s))"
  by (auto simp: queueMint_def mintError_def flushMint_def pending_def throw_def ok_def
      split: option.splits)

lemma queueWithdrawal_cases:
  "(if withdrawalItem s \<noteq> None then queueWithdrawal s else ok s) =
     (case withdrawalError s of Some e \<Rightarrow> (Some e, s) | None \<Rightarrow> (None, flushWithdrawal s))"
  by (cases "withdrawal_type (the (withdrawalItem s))")
     (auto simp: queueWithdrawal_def withdrawalError_def flushWithdrawal_def pending_def throw_def
      ok_def Let_def split: option.splits)

lemma flushOutput_cases:
  "(case txOutput s of
      Some out \<Rightarrow>
        s\<lparr> meshTxBuilderBody :=
             (meshTxBuilderBody s)\<lparr> outputs := outputs (meshTxBuilderBody s) @ [out] \<rparr>,
           txOutput := None \<rparr>
    | None \<Rightarrow> s) = flushOutput s"
  by (simp add: flushOutput_def pending_def split: option.splits)

lemma flushCollateral_cases:
  "(case collateralQueueItem s of
      Some col \<Rightarrow>
        s\<lparr> meshTxBuilderBody :=
             (meshTxBuilderBody s)\<lparr> collaterals := collaterals (meshTxBuilderBody s) @ [col] \<rparr>,
           collateralQueueItem := None \<rparr>
    | None \<Rightarrow> s) = flushCollateral s"
  by (simp add: flushCollateral_def pending_def split: option.splits)

lemma inputError_flushOutput: "inputError (flushOutput s) = inputError s"
  by (simp add: inputError_def flushOutput_def)

lemma mintError_flushed:
  "mintError (flushCollateral (flushInput (flushOutput s))) = mintError s"
  by (simp add: mintError_def flushOutput_def flushInput_def flushCollateral_def)

lemma withdrawalError_flushed:
  "withdrawalError (flushMint (flushCollateral (flushInput (flushOutput s)))) = withdrawalError s"
  by (simp add: withdrawalError_def flushOutput_def flushInput_def flushCollateral_def flushMint_def)

lemma queueAllLastItem_cases:
  "queueAllLastItem s =
     (case inputError s of
        Some e \<Rightarrow> (Some e, flushOutput s)
      | None \<Rightarrow>
          (case mintError s of
             Some e \<Rightarrow> (Some e, flushCollateral (flushInput (flushOutput s)))
           | None \<Rightarrow>
               (case withdrawalError s of
                  Some e \<Rightarrow> (Some e, flushMint (flushCollateral (flushInput (flushOutput s))))
                | None \<Rightarrow>
                    (None, flushWithdrawal (flushMint (flushCollateral (flushInput (flushOutput s))))))))"
proof -
  have q: "queueAllLastItem s =
    andThen (case inputError (flushOutput s) of
               Some e \<Rightarrow> (Some e, flushOutput s)
             | None \<Rightarrow> (None, flushInput (flushOutput s)))
      (\<lambda>s2. andThen (case mintError (flushCollateral s2) of
                        Some e \<Rightarrow> (Some e, flushCollateral s2)
                      | None \<Rightarrow> (None, flushMint (flushCollateral s2)))
               (\<lambda>s4. case withdrawalError s4 of
                        Some e \<Rightarrow> (Some e, s4)
                      | None \<Rightarrow> (None, flushWithdrawal s4)))"
    unfolding queueAllLastItem_def Let_def flushOutput_cases flushCollateral_cases
      queueInput_cases queueMint_cases queueWithdrawal_cases ..
  show ?thesis
  proof (cases "inputError s")
    case (Some e)
    then show ?thesis
      by (simp add: q inputError_flushOutput andThen_def)
  next
    case None
    note inp = this
    show ?thesis
    proof (cases "mintError s")
      case (Some e)
      then show ?thesis
        using inp by (simp add: q inputError_flushOutput mintError_flushed andThen_def)
    next
      case None
      then show ?thesis
        using inp
        by (simp add: q inputError_flushOutput mintError_flushed withdrawalError_flushed
            andThen_def split: option.splits)
    qed
  qed
qed

text \<open>
  Claim C7 on the code. \<open>queueAllLastItem\<close> flushes, in this order, the output, the
  input, the collateral, the mint and the withdrawal slot: a pending item is appended
  to its list of the body and its slot cleared, an empty slot adds nothing. The order
  shows where a check fails: an incomplete input stops the call after the output has
  been flushed, a mint without script after output, input and collateral, an
  incomplete withdrawal after the first four; the slots after the failing one are left
  pending. When the three checks pass, no error is raised, the five lists of the body
  have each grown by its pending item and the five slots are empty. The check of the
  mint channel is the presence of the script source and nothing else: a pending Plutus
  mint that has its script and no redeemer passes, and is appended to the mints
  without redeemer. This is not the completeness that the claim asks of a flush.
\<close>

theorem queueAllLastItem_order_and_checks:
  "queueAllLastItem s =
     (case inputError s of
        Some e \<Rightarrow> (Some e, flushOutput s)
      | None \<Rightarrow>
          (case mintError s of
             Some e \<Rightarrow> (Some e, flushCollateral (flushInput (flushOutput s)))
           | None \<Rightarrow>
               (case withdrawalError s of
                  Some e \<Rightarrow> (Some e, flushMint (flushCollateral (flushInput (flushOutput s))))
                | None \<Rightarrow>
                    (None, flushWithdrawal (flushMint (flushCollateral (flushInput (flushOutput s))))))))
   \<and> (inputError s = None \<and> mintError s = None \<and> withdrawalError s = None \<longrightarrow>
        fst (queueAllLastItem s) = None
        \<and> outputs (meshTxBuilderBody (snd (queueAllLastItem s))) =
            outputs (meshTxBuilderBody s) @ pending (txOutput s)
        \<and> inputs (meshTxBuilderBody (snd (queueAllLastItem s))) =
            inputs (meshTxBuilderBody s) @ pending (txInQueueItem s)
        \<and> collaterals (meshTxBuilderBody (snd (queueAllLastItem s))) =
            collaterals (meshTxBuilderBody s) @ pending (collateralQueueItem s)
        \<and> mints (meshTxBuilderBody (snd (queueAllLastItem s))) =
            mints (meshTxBuilderBody s) @ pending (mintItem s)
        \<and> withdrawals (meshTxBuilderBody (snd (queueAllLastItem s))) =
            withdrawals (meshTxBuilderBody s) @ pending (withdrawalItem s)
        \<and> txOutput (snd (queueAllLastItem s)) = None
        \<and> txInQueueItem (snd (queueAllLastItem s)) = None
        \<and> collateralQueueItem (snd (queueAllLastItem s)) = None
        \<and> mintItem (snd (queueAllLastItem s)) = None
        \<and> withdrawalItem (snd (queueAllLastItem s)) = None)
   \<and> (\<forall>mt. mintItem s = Some mt \<longrightarrow>
        mintError s =
          (if mint_scriptSource mt = None
           then Some (Error ''queueMint: Missing mint script information'') else None))
   \<and> (\<forall>mt. mintItem s = Some mt \<and> mint_type mt = Plutus \<and> mint_redeemer mt = None
          \<and> mint_scriptSource mt \<noteq> None \<and> inputError s = None \<and> withdrawalError s = None \<longrightarrow>
        fst (queueAllLastItem s) = None
        \<and> mints (meshTxBuilderBody (snd (queueAllLastItem s))) = mints (meshTxBuilderBody s) @ [mt]
        \<and> mintItem (snd (queueAllLastItem s)) = None)"
proof (intro conjI)
  show "queueAllLastItem s =
     (case inputError s of
        Some e \<Rightarrow> (Some e, flushOutput s)
      | None \<Rightarrow>
          (case mintError s of
             Some e \<Rightarrow> (Some e, flushCollateral (flushInput (flushOutput s)))
           | None \<Rightarrow>
               (case withdrawalError s of
                  Some e \<Rightarrow> (Some e, flushMint (flushCollateral (flushInput (flushOutput s))))
                | None \<Rightarrow>
                    (None, flushWithdrawal (flushMint (flushCollateral (flushInput (flushOutput s))))))))"
    by (rule queueAllLastItem_cases)
next
  show "inputError s = None \<and> mintError s = None \<and> withdrawalError s = None \<longrightarrow>
        fst (queueAllLastItem s) = None
        \<and> outputs (meshTxBuilderBody (snd (queueAllLastItem s))) =
            outputs (meshTxBuilderBody s) @ pending (txOutput s)
        \<and> inputs (meshTxBuilderBody (snd (queueAllLastItem s))) =
            inputs (meshTxBuilderBody s) @ pending (txInQueueItem s)
        \<and> collaterals (meshTxBuilderBody (snd (queueAllLastItem s))) =
            collaterals (meshTxBuilderBody s) @ pending (collateralQueueItem s)
        \<and> mints (meshTxBuilderBody (snd (queueAllLastItem s))) =
            mints (meshTxBuilderBody s) @ pending (mintItem s)
        \<and> withdrawals (meshTxBuilderBody (snd (queueAllLastItem s))) =
            withdrawals (meshTxBuilderBody s) @ pending (withdrawalItem s)
        \<and> txOutput (snd (queueAllLastItem s)) = None
        \<and> txInQueueItem (snd (queueAllLastItem s)) = None
        \<and> collateralQueueItem (snd (queueAllLastItem s)) = None
        \<and> mintItem (snd (queueAllLastItem s)) = None
        \<and> withdrawalItem (snd (queueAllLastItem s)) = None"
    by (simp add: queueAllLastItem_cases flushOutput_def flushInput_def flushCollateral_def
        flushMint_def flushWithdrawal_def)
next
  show "\<forall>mt. mintItem s = Some mt \<longrightarrow>
        mintError s =
          (if mint_scriptSource mt = None
           then Some (Error ''queueMint: Missing mint script information'') else None)"
    by (simp add: mintError_def)
next
  show "\<forall>mt. mintItem s = Some mt \<and> mint_type mt = Plutus \<and> mint_redeemer mt = None
          \<and> mint_scriptSource mt \<noteq> None \<and> inputError s = None \<and> withdrawalError s = None \<longrightarrow>
        fst (queueAllLastItem s) = None
        \<and> mints (meshTxBuilderBody (snd (queueAllLastItem s))) = mints (meshTxBuilderBody s) @ [mt]
        \<and> mintItem (snd (queueAllLastItem s)) = None"
    by (simp add: queueAllLastItem_cases mintError_def flushOutput_def flushInput_def
        flushCollateral_def flushMint_def flushWithdrawal_def pending_def)
qed

text \<open>
  The theorem on the sample. With an output, a script input that lacks its datum and a
  mint pending, the call raises the error of the input after it has flushed the
  output, and the mint is not flushed. With an output, a key input and a Plutus mint
  that has its script and no redeemer pending, the call raises no error and the three
  are in the body, the mint without redeemer.
\<close>

theorem queueAllLastItem_order_and_checks_witness:
  "fst (queueAllLastItem
      (calls sample_common
         [On_output (Call_txOut ''addr_test1vz'' [\<lparr> unit = ''lovelace'', quantity = 2000000 \<rparr>]),
          On_input Call_spendingPlutusScriptV2,
          On_input (Call_txIn ''bb'' 1 None None),
          On_mint (Call_mint 5 ''policy1'' ''deadbeef''),
          On_mint (Call_mintingScript ''8200581c'')]
         (MeshTxBuilderCore sample_common)))
     = Some (Error ''queueInput: Script input does not contain datum information'')
   \<and> length (outputs (meshTxBuilderBody (snd (queueAllLastItem
      (calls sample_common
         [On_output (Call_txOut ''addr_test1vz'' [\<lparr> unit = ''lovelace'', quantity = 2000000 \<rparr>]),
          On_input Call_spendingPlutusScriptV2,
          On_input (Call_txIn ''bb'' 1 None None),
          On_mint (Call_mint 5 ''policy1'' ''deadbeef''),
          On_mint (Call_mintingScript ''8200581c'')]
         (MeshTxBuilderCore sample_common)))))) = 1
   \<and> mints (meshTxBuilderBody (snd (queueAllLastItem
      (calls sample_common
         [On_output (Call_txOut ''addr_test1vz'' [\<lparr> unit = ''lovelace'', quantity = 2000000 \<rparr>]),
          On_input Call_spendingPlutusScriptV2,
          On_input (Call_txIn ''bb'' 1 None None),
          On_mint (Call_mint 5 ''policy1'' ''deadbeef''),
          On_mint (Call_mintingScript ''8200581c'')]
         (MeshTxBuilderCore sample_common))))) = []
   \<and> mintItem
      (calls sample_common
         [On_output (Call_txOut ''addr_test1vz'' [\<lparr> unit = ''lovelace'', quantity = 2000000 \<rparr>]),
          On_input (Call_txIn ''aa'' 0 None None),
          On_mint Call_mintPlutusScriptV2,
          On_mint (Call_mint 5 ''policy1'' ''deadbeef''),
          On_mint (Call_mintingScript ''590a01'')]
         (MeshTxBuilderCore sample_common))
     = Some \<lparr> mint_type = Plutus, policyId = ''policy1'', assetName = ''deadbeef'',
              mint_amount = 5, mint_redeemer = None,
              mint_scriptSource = Some (ScriptProvided ''590a01'' V2) \<rparr>
   \<and> fst (queueAllLastItem
      (calls sample_common
         [On_output (Call_txOut ''addr_test1vz'' [\<lparr> unit = ''lovelace'', quantity = 2000000 \<rparr>]),
          On_input (Call_txIn ''aa'' 0 None None),
          On_mint Call_mintPlutusScriptV2,
          On_mint (Call_mint 5 ''policy1'' ''deadbeef''),
          On_mint (Call_mintingScript ''590a01'')]
         (MeshTxBuilderCore sample_common))) = None
   \<and> length (outputs (meshTxBuilderBody (snd (queueAllLastItem
      (calls sample_common
         [On_output (Call_txOut ''addr_test1vz'' [\<lparr> unit = ''lovelace'', quantity = 2000000 \<rparr>]),
          On_input (Call_txIn ''aa'' 0 None None),
          On_mint Call_mintPlutusScriptV2,
          On_mint (Call_mint 5 ''policy1'' ''deadbeef''),
          On_mint (Call_mintingScript ''590a01'')]
         (MeshTxBuilderCore sample_common)))))) = 1
   \<and> inputs (meshTxBuilderBody (snd (queueAllLastItem
      (calls sample_common
         [On_output (Call_txOut ''addr_test1vz'' [\<lparr> unit = ''lovelace'', quantity = 2000000 \<rparr>]),
          On_input (Call_txIn ''aa'' 0 None None),
          On_mint Call_mintPlutusScriptV2,
          On_mint (Call_mint 5 ''policy1'' ''deadbeef''),
          On_mint (Call_mintingScript ''590a01'')]
         (MeshTxBuilderCore sample_common)))))
     = [PubKey \<lparr> txHash = ''aa'', txIndex = 0, amount = None, address = None \<rparr>]
   \<and> mints (meshTxBuilderBody (snd (queueAllLastItem
      (calls sample_common
         [On_output (Call_txOut ''addr_test1vz'' [\<lparr> unit = ''lovelace'', quantity = 2000000 \<rparr>]),
          On_input (Call_txIn ''aa'' 0 None None),
          On_mint Call_mintPlutusScriptV2,
          On_mint (Call_mint 5 ''policy1'' ''deadbeef''),
          On_mint (Call_mintingScript ''590a01'')]
         (MeshTxBuilderCore sample_common)))))
     = [\<lparr> mint_type = Plutus, policyId = ''policy1'', assetName = ''deadbeef'',
          mint_amount = 5, mint_redeemer = None,
          mint_scriptSource = Some (ScriptProvided ''590a01'' V2) \<rparr>]"
  using
    queueAllLastItem_order_and_checks
      [of "calls sample_common
         [On_output (Call_txOut ''addr_test1vz'' [\<lparr> unit = ''lovelace'', quantity = 2000000 \<rparr>]),
          On_input Call_spendingPlutusScriptV2,
          On_input (Call_txIn ''bb'' 1 None None),
          On_mint (Call_mint 5 ''policy1'' ''deadbeef''),
          On_mint (Call_mintingScript ''8200581c'')]
         (MeshTxBuilderCore sample_common)"]
    queueAllLastItem_order_and_checks
      [of "calls sample_common
         [On_output (Call_txOut ''addr_test1vz'' [\<lparr> unit = ''lovelace'', quantity = 2000000 \<rparr>]),
          On_input (Call_txIn ''aa'' 0 None None),
          On_mint Call_mintPlutusScriptV2,
          On_mint (Call_mint 5 ''policy1'' ''deadbeef''),
          On_mint (Call_mintingScript ''590a01'')]
         (MeshTxBuilderCore sample_common)"]
  by (simp add: builder_defs sample_common_def inputError_def mintError_def withdrawalError_def
      flushOutput_def flushInput_def flushCollateral_def flushMint_def flushWithdrawal_def
      pending_def)

section \<open>The script of an input\<close>

text \<open>
  Claim C5 on the code. With no pending input \<open>txInScript\<close> raises "Undefined input"
  and changes nothing; a pending \<open>PubKey\<close> input becomes a \<open>SimpleScript\<close> input with
  the provided script; on a pending \<open>Script\<close> input the script source becomes the
  provided script with the remembered spending version (\<open>V2\<close> when none is
  remembered). On a pending \<open>SimpleScript\<close> input, where the claim has an error, the
  call raises none and changes nothing: the script that the caller passed is dropped.
\<close>

theorem txInScript_cases:
  "(txInQueueItem s = None \<longrightarrow> txInScript cbor s = (Some (Error ''Undefined input''), s))
   \<and> (\<forall>p. txInQueueItem s = Some (PubKey p) \<longrightarrow>
          txInScript cbor s =
            (None, s\<lparr> txInQueueItem := Some (SimpleScript p (SimpleProvided cbor)) \<rparr>))
   \<and> (\<forall>p st. txInQueueItem s = Some (Script p st) \<longrightarrow>
          txInScript cbor s =
            (None, s\<lparr> txInQueueItem := Some (Script p (st\<lparr> scriptSource := Some
               (ScriptProvided cbor
                  (case plutusSpendingScriptVersion s of None \<Rightarrow> V2 | Some v \<Rightarrow> v)) \<rparr>)) \<rparr>))
   \<and> (\<forall>p src. txInQueueItem s = Some (SimpleScript p src) \<longrightarrow> txInScript cbor s = (None, s))"
  by (simp add: txInScript_def throw_def ok_def)

text \<open>
  The four cases on the sample.
\<close>

theorem txInScript_cases_witness:
  "txInScript ''8200581c'' (MeshTxBuilderCore sample_common)
     = (Some (Error ''Undefined input''), MeshTxBuilderCore sample_common)
   \<and> txInQueueItem (snd (txInScript ''8200581c''
        (calls sample_common [On_input (Call_txIn ''aa'' 0 None None)]
           (MeshTxBuilderCore sample_common))))
     = Some (SimpleScript \<lparr> txHash = ''aa'', txIndex = 0, amount = None, address = None \<rparr>
               (SimpleProvided ''8200581c''))
   \<and> txInQueueItem (snd (txInScript ''590a01''
        (calls sample_common
           [On_input Call_spendingPlutusScriptV3, On_input (Call_txIn ''bb'' 1 None None)]
           (MeshTxBuilderCore sample_common))))
     = Some (Script \<lparr> txHash = ''bb'', txIndex = 1, amount = None, address = None \<rparr>
               \<lparr> scriptSource = Some (ScriptProvided ''590a01'' V3), datumSource = None,
                 redeemer = None \<rparr>)
   \<and> fst (txInScript ''830301''
        (calls sample_common
           [On_input (Call_txIn ''aa'' 0 None None), On_input (Call_txInScript ''8200581c'')]
           (MeshTxBuilderCore sample_common))) = None"
  using
    txInScript_cases [of "MeshTxBuilderCore sample_common" "''8200581c''"]
    txInScript_cases [of "calls sample_common [On_input (Call_txIn ''aa'' 0 None None)]
           (MeshTxBuilderCore sample_common)" "''8200581c''"]
    txInScript_cases [of "calls sample_common
           [On_input Call_spendingPlutusScriptV3, On_input (Call_txIn ''bb'' 1 None None)]
           (MeshTxBuilderCore sample_common)" "''590a01''"]
    txInScript_cases [of "calls sample_common
           [On_input (Call_txIn ''aa'' 0 None None), On_input (Call_txInScript ''8200581c'')]
           (MeshTxBuilderCore sample_common)" "''830301''"]
  by (simp add: builder_defs sample_common_def)

text \<open>
  The last case in full: after a key input has been promoted by a first
  \<open>txInScript\<close>, a second one returns without error and leaves the builder, with the
  first script, as it is.
\<close>

lemma txInScript_SimpleScript_no_error:
  "txInQueueItem
     (calls sample_common
        [On_input (Call_txIn ''aa'' 0 None None), On_input (Call_txInScript ''8200581c'')]
        (MeshTxBuilderCore sample_common))
     = Some (SimpleScript \<lparr> txHash = ''aa'', txIndex = 0, amount = None, address = None \<rparr>
               (SimpleProvided ''8200581c''))
   \<and> txInScript ''830301''
        (calls sample_common
           [On_input (Call_txIn ''aa'' 0 None None), On_input (Call_txInScript ''8200581c'')]
           (MeshTxBuilderCore sample_common))
     = (None,
        calls sample_common
          [On_input (Call_txIn ''aa'' 0 None None), On_input (Call_txInScript ''8200581c'')]
          (MeshTxBuilderCore sample_common))"
  by (simp add: builder_defs sample_common_def)

section \<open>Deduplication\<close>

text \<open>
  The list \<open>currentTxInIds\<close> stays empty through the loop, so no input is ever found
  in it: the loop copies the inputs from position \<open>i\<close> on, and the method returns the
  builder unchanged.
\<close>

lemma removeDuplicateInputs_loop_no_ids:
  "removeDuplicateInputs_loop i ins [] added = added @ drop i ins"
proof (induction i ins "[] :: string list" added rule: removeDuplicateInputs_loop.induct)
  case (1 i ins added)
  show ?case
  proof (cases "i < length ins")
    case True
    then have "removeDuplicateInputs_loop i ins [] added =
               removeDuplicateInputs_loop (Suc i) ins [] (added @ [ins ! i])"
      by (subst removeDuplicateInputs_loop.simps) simp
    also have "\<dots> = (added @ [ins ! i]) @ drop (Suc i) ins"
      using True by (intro "1.hyps"(2)) simp_all
    also have "\<dots> = added @ drop i ins"
      using True by (simp add: Cons_nth_drop_Suc)
    finally show ?thesis .
  next
    case False
    then show ?thesis
      by (subst removeDuplicateInputs_loop.simps) simp
  qed
qed

lemma removeDuplicateInputs_unchanged: "removeDuplicateInputs s = (None, s)"
  by (simp add: removeDuplicateInputs_def removeDuplicateInputs_loop_no_ids ok_def)

text \<open>
  Claim C6 on the code. The inputs of scenario S5, \<open>(aa,0), (bb,1), (aa,0), (cc,2),
  (bb,1)\<close>, opened by five \<open>txIn\<close> calls and flushed, come out of
  \<open>removeDuplicateInputs\<close> as they went in: the second occurrences of \<open>(aa,0)\<close> and
  \<open>(bb,1)\<close> are not removed.
\<close>

theorem removeDuplicateInputs_keeps_duplicates:
  "inputs (meshTxBuilderBody (snd (removeDuplicateInputs
     (calls sample_common
        [On_input (Call_txIn ''aa'' 0 None None),
         On_input (Call_txIn ''bb'' 1 None None),
         On_input (Call_txIn ''aa'' 0 None None),
         On_input (Call_txIn ''cc'' 2 None None),
         On_input (Call_txIn ''bb'' 1 None None),
         On_finalize Call_queueAllLastItem]
        (MeshTxBuilderCore sample_common)))))
   = [PubKey \<lparr> txHash = ''aa'', txIndex = 0, amount = None, address = None \<rparr>,
      PubKey \<lparr> txHash = ''bb'', txIndex = 1, amount = None, address = None \<rparr>,
      PubKey \<lparr> txHash = ''aa'', txIndex = 0, amount = None, address = None \<rparr>,
      PubKey \<lparr> txHash = ''cc'', txIndex = 2, amount = None, address = None \<rparr>,
      PubKey \<lparr> txHash = ''bb'', txIndex = 1, amount = None, address = None \<rparr>]"
  by (simp add: removeDuplicateInputs_unchanged builder_defs sample_common_def)

section \<open>The mint channel on flush\<close>

text \<open>
  Claim C1 on the code. A Plutus mint is opened and given its script, and no redeemer.
  Flushing it, by \<open>queueAllLastItem\<close> or by opening the next mint, raises no error and
  appends the mint, without redeemer, to the mints of the body.
\<close>

theorem queueMint_pushes_plutus_mint_without_redeemer:
  "fst (queueAllLastItem
     (calls sample_common
        [On_mint Call_mintPlutusScriptV2,
         On_mint (Call_mint 1 ''policy1'' ''deadbeef''),
         On_mint (Call_mintingScript ''590a01'')]
        (MeshTxBuilderCore sample_common))) = None
   \<and> mints (meshTxBuilderBody (snd (queueAllLastItem
     (calls sample_common
        [On_mint Call_mintPlutusScriptV2,
         On_mint (Call_mint 1 ''policy1'' ''deadbeef''),
         On_mint (Call_mintingScript ''590a01'')]
        (MeshTxBuilderCore sample_common)))))
     = [\<lparr> mint_type = Plutus, policyId = ''policy1'', assetName = ''deadbeef'', mint_amount = 1,
          mint_redeemer = None, mint_scriptSource = Some (ScriptProvided ''590a01'' V2) \<rparr>]
   \<and> fst (mint 2 ''policy2'' ''cafe''
     (calls sample_common
        [On_mint Call_mintPlutusScriptV2,
         On_mint (Call_mint 1 ''policy1'' ''deadbeef''),
         On_mint (Call_mintingScript ''590a01'')]
        (MeshTxBuilderCore sample_common))) = None
   \<and> mints (meshTxBuilderBody (snd (mint 2 ''policy2'' ''cafe''
     (calls sample_common
        [On_mint Call_mintPlutusScriptV2,
         On_mint (Call_mint 1 ''policy1'' ''deadbeef''),
         On_mint (Call_mintingScript ''590a01'')]
        (MeshTxBuilderCore sample_common)))))
     = [\<lparr> mint_type = Plutus, policyId = ''policy1'', assetName = ''deadbeef'', mint_amount = 1,
          mint_redeemer = None, mint_scriptSource = Some (ScriptProvided ''590a01'' V2) \<rparr>]"
  by (simp add: builder_defs sample_common_def)

section \<open>Completeness of the script inputs of the body\<close>

text \<open>
  Every method keeps the inputs of the body complete. The inputs change in
  \<open>queueInput\<close>, which appends a checked item; in \<open>updateRedeemer\<close>, which writes
  execution units into a redeemer that is there; in \<open>addUtxosFromSelection\<close>, which
  appends key inputs; and in \<open>reset\<close> and \<open>emptyTxBuilderBody\<close>, which start from the
  empty body.
\<close>

lemma queueInput_complete:
  "list_all scriptInputComplete (inputs (meshTxBuilderBody s)) \<Longrightarrow>
   list_all scriptInputComplete (inputs (meshTxBuilderBody (snd (queueInput s))))"
  by (auto simp: queueInput_def throw_def ok_def scriptInputComplete_def Let_def
      split: option.splits TxIn.splits)

lemma queueMint_inputs:
  "inputs (meshTxBuilderBody (snd (queueMint s))) = inputs (meshTxBuilderBody s)"
  by (simp add: queueMint_def throw_def ok_def split: option.splits)

lemma queueWithdrawal_inputs:
  "inputs (meshTxBuilderBody (snd (queueWithdrawal s))) = inputs (meshTxBuilderBody s)"
  by (simp add: queueWithdrawal_def throw_def ok_def Let_def split: option.splits)

lemma call_input_complete:
  assumes "list_all scriptInputComplete (inputs (meshTxBuilderBody s))"
  shows "list_all scriptInputComplete (inputs (meshTxBuilderBody (snd (call_input c x s))))"
proof (cases x)
  case (Call_txIn h i am ad)
  with assms queueInput_complete [of s] show ?thesis
    by (cases "queueInput s"; cases "fst (queueInput s)")
       (auto simp: txIn_def andThen_def ok_def Let_def)
qed (use assms in \<open>auto simp: txInScript_def txInDatumValue_def txInInlineDatumPresent_def
      txInRedeemerValue_def spendingPlutusScriptV1_def spendingPlutusScriptV2_def
      spendingPlutusScriptV3_def spendingTxInReference_def
      spendingReferenceTxInInlineDatumPresent_def spendingReferenceTxInRedeemerValue_def
      readOnlyTxInReference_def throw_def ok_def Let_def
      split: option.splits TxIn.splits\<close>)

lemma call_output_inputs:
  "inputs (meshTxBuilderBody (snd (call_output c x s))) = inputs (meshTxBuilderBody s)"
  by (cases x)
     (auto simp: txOut_def txOutDatumHashValue_def txOutInlineDatumValue_def
      txOutReferenceScript_def ok_def Let_def split: option.splits)

lemma call_mint_inputs:
  "inputs (meshTxBuilderBody (snd (call_mint c x s))) = inputs (meshTxBuilderBody s)"
proof (cases x)
  case (Call_mint q pol nm)
  then show ?thesis
    using queueMint_inputs [of s]
    by (cases "queueMint s"; cases "fst (queueMint s)")
       (auto simp: mint_def andThen_def ok_def)
qed (auto simp: mintPlutusScriptV1_def mintPlutusScriptV2_def mintPlutusScriptV3_def
      mintingScript_def mintTxInReference_def mintReferenceTxInRedeemerValue_def
      mintRedeemerValue_def throw_def ok_def Let_def split: option.splits)

lemma call_withdrawal_inputs:
  "inputs (meshTxBuilderBody (snd (call_withdrawal c x s))) = inputs (meshTxBuilderBody s)"
proof (cases x)
  case (Call_withdrawal ra cn)
  then show ?thesis
    using queueWithdrawal_inputs [of s]
    by (cases "queueWithdrawal s"; cases "fst (queueWithdrawal s)")
       (auto simp: withdrawal_def andThen_def ok_def)
qed (auto simp: withdrawalPlutusScriptV1_def withdrawalPlutusScriptV2_def
      withdrawalPlutusScriptV3_def withdrawalScript_def withdrawalTxInReference_def
      withdrawalRedeemerValue_def throw_def ok_def Let_def split: option.splits)

lemma call_certificate_inputs:
  "inputs (meshTxBuilderBody (snd (call_certificate c x s))) = inputs (meshTxBuilderBody s)"
  by (cases x)
     (auto simp: registerPoolCertificate_def registerStakeCertificate_def
      delegateStakeCertificate_def deregisterStakeCertificate_def retirePoolCertificate_def
      certificateScript_def certificateTxInReference_def certificateRedeemerValue_def
      pushCertificate_def popCertificate_def throw_def ok_def
      split: option.splits Certificate.splits if_splits)

lemma call_global_inputs:
  "inputs (meshTxBuilderBody (snd (call_global c x s))) = inputs (meshTxBuilderBody s)"
  by (cases x)
     (auto simp: requiredSignerHash_def txInCollateral_def changeAddress_def invalidBefore_def
      invalidHereafter_def metadataValue_def signingKey_def selectUtxosFrom_def
      protocolParams_def ok_def Let_def split: option.splits)

lemma queueAllLastItem_complete:
  assumes "list_all scriptInputComplete (inputs (meshTxBuilderBody s))"
  shows "list_all scriptInputComplete (inputs (meshTxBuilderBody (snd (queueAllLastItem s))))"
proof -
  have "inputError s = None \<Longrightarrow> list_all scriptInputComplete (pending (txInQueueItem s))"
    by (auto simp: inputError_def pending_def scriptInputComplete_def
        split: option.splits TxIn.splits if_splits)
  with assms show ?thesis
    by (auto simp: queueAllLastItem_cases flushOutput_def flushInput_def flushCollateral_def
        flushMint_def flushWithdrawal_def split: option.splits)
qed

lemma updateRedeemer_each_complete:
  assumes "list_all scriptInputComplete (inputs b)"
  shows "list_all scriptInputComplete (inputs (fst (snd (updateRedeemer_each this b h ev))))"
proof (cases "tag ev")
  case SPEND
  show ?thesis
  proof (cases "index ev < length (inputs b)")
    case True
    with assms have "scriptInputComplete (inputs b ! index ev)"
      by (simp add: list_all_length)
    with assms True SPEND show ?thesis
      by (auto simp: updateRedeemer_each_def Let_def list_all_length nth_list_update
          scriptInputComplete_def split: TxIn.splits option.splits prod.splits)
  next
    case False
    with assms SPEND show ?thesis
      by (simp add: updateRedeemer_each_def Let_def)
  qed
next
  case MINT
  with assms show ?thesis
    by (auto simp: updateRedeemer_each_def Let_def split: option.splits prod.splits)
next
  case CERT
  with assms show ?thesis
    by (auto simp: updateRedeemer_each_def Let_def
        split: option.splits Certificate.splits prod.splits)
next
  case REWARD
  with assms show ?thesis
    by (auto simp: updateRedeemer_each_def Let_def split: option.splits prod.splits)
qed

lemma updateRedeemer_complete:
  "list_all scriptInputComplete (inputs b) \<Longrightarrow>
   list_all scriptInputComplete (inputs (fst (snd (updateRedeemer this b h evs))))"
proof (induction evs arbitrary: b h)
  case Nil
  then show ?case by simp
next
  case (Cons ev evs)
  from Cons.prems
  have step: "list_all scriptInputComplete (inputs (fst (snd (updateRedeemer_each this b h ev))))"
    by (rule updateRedeemer_each_complete)
  obtain e b' h' where each: "updateRedeemer_each this b h ev = (e, b', h')"
    by (cases "updateRedeemer_each this b h ev") auto
  with step Cons.IH [of b' h'] show ?case
    by (cases e) simp_all
qed

lemma addUtxosFromSelection_complete:
  "list_all scriptInputComplete (inputs (meshTxBuilderBody s)) \<Longrightarrow>
   list_all scriptInputComplete (inputs (meshTxBuilderBody (snd (addUtxosFromSelection c s))))"
  by (auto simp: addUtxosFromSelection_def ok_def list_all_iff pubKeyTxIn_def
      scriptInputComplete_def split: sum.splits)

lemma call_finalize_complete:
  assumes "inputs (emptyTxBuilderBody c) = []"
    and "list_all scriptInputComplete (inputs (meshTxBuilderBody s))"
  shows "list_all scriptInputComplete (inputs (meshTxBuilderBody (snd (call_finalize c x s))))"
proof (cases x)
  case Call_queueAllLastItem
  with assms(2) show ?thesis by (simp add: queueAllLastItem_complete)
next
  case (Call_updateRedeemer h evs)
  with updateRedeemer_complete [OF assms(2), of s h evs] show ?thesis
    by (simp add: split_beta)
next
  case Call_addUtxosFromSelection
  with assms(2) show ?thesis by (simp add: addUtxosFromSelection_complete)
next
  case Call_removeDuplicateInputs
  with assms(2) show ?thesis by (simp add: removeDuplicateInputs_unchanged)
next
  case Call_emptyTxBuilderBody
  with assms(1) show ?thesis by (simp add: emptyTxBuilderBody_method_def ok_def)
next
  case Call_reset
  with assms(1) show ?thesis by (simp add: reset_def ok_def)
qed

lemma call_complete:
  assumes "inputs (emptyTxBuilderBody c) = []"
    and "list_all scriptInputComplete (inputs (meshTxBuilderBody s))"
  shows "list_all scriptInputComplete (inputs (meshTxBuilderBody (snd (call c x s))))"
  using assms
  by (cases x)
     (simp_all add: call_input_complete call_output_inputs call_mint_inputs
      call_withdrawal_inputs call_certificate_inputs call_global_inputs call_finalize_complete)

lemma calls_complete:
  assumes "inputs (emptyTxBuilderBody c) = []"
  shows "list_all scriptInputComplete (inputs (meshTxBuilderBody s)) \<Longrightarrow>
         list_all scriptInputComplete (inputs (meshTxBuilderBody (calls c xs s)))"
proof (induction xs arbitrary: s)
  case Nil
  then show ?case by simp
next
  case (Cons x xs)
  from call_complete [OF assms Cons.prems] have
    "list_all scriptInputComplete (inputs (meshTxBuilderBody (snd (call c x s))))" .
  then show ?case
    using Cons.IH by simp
qed

lemma incomplete_input_error:
  assumes "txInQueueItem s = Some (Script p st)"
    and "scriptSource st = None \<or> datumSource st = None \<or> redeemer st = None"
  shows "inputError s \<noteq> None"
  using assms by (auto simp: inputError_def)

lemma complete_input_no_error:
  assumes "txInQueueItem s = Some (Script p st)"
    and "\<not> (scriptSource st = None \<or> datumSource st = None \<or> redeemer st = None)"
  shows "inputError s = None"
  using assms by (auto simp: inputError_def)

text \<open>
  Claim C4. Let a \<open>Script\<close> input be pending. If its script source, datum source or
  redeemer is absent, flushing it raises an error, by \<open>queueInput\<close> itself, by a new
  \<open>txIn\<close> and by \<open>queueAllLastItem\<close>, and the input is not appended and stays
  pending. Otherwise the flush appends it to the inputs and clears the slot. Hence,
  the body being empty at construction, after any sequence of calls on a new builder
  every \<open>Script\<close> input of the body has all three.
\<close>

theorem script_input_flush:
  assumes "inputs (emptyTxBuilderBody c) = []"
  shows
    "(\<forall>p st. txInQueueItem s = Some (Script p st) \<longrightarrow>
        (if scriptSource st = None \<or> datumSource st = None \<or> redeemer st = None
         then fst (queueInput s) \<noteq> None \<and> snd (queueInput s) = s
              \<and> fst (txIn h i am ad s) \<noteq> None \<and> snd (txIn h i am ad s) = s
              \<and> fst (queueAllLastItem s) \<noteq> None
              \<and> inputs (meshTxBuilderBody (snd (queueAllLastItem s))) = inputs (meshTxBuilderBody s)
              \<and> txInQueueItem (snd (queueAllLastItem s)) = txInQueueItem s
         else queueInput s =
                (None, s\<lparr> meshTxBuilderBody :=
                            (meshTxBuilderBody s)\<lparr> inputs :=
                               inputs (meshTxBuilderBody s) @ [Script p st] \<rparr>,
                          txInQueueItem := None \<rparr>)
              \<and> fst (txIn h i am ad s) = None
              \<and> inputs (meshTxBuilderBody (snd (txIn h i am ad s))) =
                  inputs (meshTxBuilderBody s) @ [Script p st]
              \<and> inputs (meshTxBuilderBody (snd (queueAllLastItem s))) =
                  inputs (meshTxBuilderBody s) @ [Script p st]
              \<and> txInQueueItem (snd (queueAllLastItem s)) = None))
     \<and> (\<forall>p st. Script p st \<in> set (inputs (meshTxBuilderBody (calls c ops (MeshTxBuilderCore c)))) \<longrightarrow>
          scriptSource st \<noteq> None \<and> datumSource st \<noteq> None \<and> redeemer st \<noteq> None)"
proof (intro conjI allI impI)
  fix p st
  assume pend: "txInQueueItem s = Some (Script p st)"
  show "if scriptSource st = None \<or> datumSource st = None \<or> redeemer st = None
         then fst (queueInput s) \<noteq> None \<and> snd (queueInput s) = s
              \<and> fst (txIn h i am ad s) \<noteq> None \<and> snd (txIn h i am ad s) = s
              \<and> fst (queueAllLastItem s) \<noteq> None
              \<and> inputs (meshTxBuilderBody (snd (queueAllLastItem s))) = inputs (meshTxBuilderBody s)
              \<and> txInQueueItem (snd (queueAllLastItem s)) = txInQueueItem s
         else queueInput s =
                (None, s\<lparr> meshTxBuilderBody :=
                            (meshTxBuilderBody s)\<lparr> inputs :=
                               inputs (meshTxBuilderBody s) @ [Script p st] \<rparr>,
                          txInQueueItem := None \<rparr>)
              \<and> fst (txIn h i am ad s) = None
              \<and> inputs (meshTxBuilderBody (snd (txIn h i am ad s))) =
                  inputs (meshTxBuilderBody s) @ [Script p st]
              \<and> inputs (meshTxBuilderBody (snd (queueAllLastItem s))) =
                  inputs (meshTxBuilderBody s) @ [Script p st]
              \<and> txInQueueItem (snd (queueAllLastItem s)) = None"
  proof (cases "scriptSource st = None \<or> datumSource st = None \<or> redeemer st = None")
    case True
    from incomplete_input_error [OF pend True] obtain e where e: "inputError s = Some e"
      by auto
    have qi: "queueInput s = (Some e, s)"
      using queueInput_cases [of s] pend e by simp
    have "txIn h i am ad s = (Some e, s)"
      using pend qi by (simp add: txIn_def andThen_def)
    moreover have "queueAllLastItem s = (Some e, flushOutput s)"
      using e by (simp add: queueAllLastItem_cases)
    ultimately show ?thesis
      using True qi by (simp add: flushOutput_def)
  next
    case False
    from complete_input_no_error [OF pend False] have e: "inputError s = None" .
    have qi: "queueInput s = (None, flushInput s)"
      using queueInput_cases [of s] pend e by simp
    have "txIn h i am ad s =
            ok ((flushInput s)\<lparr> txInQueueItem := Some
                  (if \<not> addingPlutusScriptInput s
                   then PubKey \<lparr> txHash = h, txIndex = i, amount = am, address = ad \<rparr>
                   else Script \<lparr> txHash = h, txIndex = i, amount = am, address = ad \<rparr>
                          \<lparr> scriptSource = None, datumSource = None, redeemer = None \<rparr>),
                addingPlutusScriptInput := False \<rparr>)"
      using pend qi by (simp add: txIn_def andThen_def Let_def flushInput_def)
    then show ?thesis
      using False qi pend e
      by (auto simp: queueAllLastItem_cases flushInput_def flushOutput_def flushCollateral_def
          flushMint_def flushWithdrawal_def pending_def ok_def split: option.splits)
  qed
next
  fix p st
  assume mem: "Script p st \<in> set (inputs (meshTxBuilderBody (calls c ops (MeshTxBuilderCore c))))"
  have "list_all scriptInputComplete (inputs (meshTxBuilderBody (MeshTxBuilderCore c)))"
    using assms by (simp add: MeshTxBuilderCore_def)
  from calls_complete [OF assms this, of ops] mem
  have "scriptInputComplete (Script p st)"
    by (simp add: list_all_iff)
  then have "scriptSource st \<noteq> None \<and> datumSource st \<noteq> None \<and> redeemer st \<noteq> None"
    by (simp add: scriptInputComplete_def)
  then show "scriptSource st \<noteq> None" and "datumSource st \<noteq> None" and "redeemer st \<noteq> None"
    by simp_all
qed

text \<open>
  The theorem on the sample: a script input without datum makes the flush fail, and
  the spend of scenario S2 gives a body whose script input is complete.
\<close>

theorem script_input_flush_witness:
  "inputs (emptyTxBuilderBody sample_common) = []
   \<and> txInQueueItem
       (calls sample_common
          [On_input Call_spendingPlutusScriptV2, On_input (Call_txIn ''bb'' 1 None None),
           On_input (Call_txInScript ''590a01'')]
          (MeshTxBuilderCore sample_common))
     = Some (Script \<lparr> txHash = ''bb'', txIndex = 1, amount = None, address = None \<rparr>
               \<lparr> scriptSource = Some (ScriptProvided ''590a01'' V2), datumSource = None,
                 redeemer = None \<rparr>)
   \<and> fst (queueAllLastItem
       (calls sample_common
          [On_input Call_spendingPlutusScriptV2, On_input (Call_txIn ''bb'' 1 None None),
           On_input (Call_txInScript ''590a01'')]
          (MeshTxBuilderCore sample_common))) \<noteq> None
   \<and> inputs (meshTxBuilderBody
       (calls sample_common
          [On_input Call_spendingPlutusScriptV2, On_input (Call_txIn ''bb'' 1 None None),
           On_input (Call_txInScript ''590a01''), On_input Call_txInInlineDatumPresent,
           On_input (Call_txInRedeemerValue (ObjectContent ''42'') Mesh None),
           On_input (Call_txIn ''cc'' 0 None None), On_finalize Call_queueAllLastItem]
          (MeshTxBuilderCore sample_common)))
     = [Script \<lparr> txHash = ''bb'', txIndex = 1, amount = None, address = None \<rparr>
          \<lparr> scriptSource = Some (ScriptProvided ''590a01'' V2),
            datumSource = Some (DatumInline ''bb'' 1),
            redeemer = Some \<lparr> data = \<lparr> data_type = Mesh, content = ObjectContent ''42'' \<rparr>,
                              exUnits = Own \<lparr> mem = 7000000, steps = 3000000000 \<rparr> \<rparr> \<rparr>,
        PubKey \<lparr> txHash = ''cc'', txIndex = 0, amount = None, address = None \<rparr>]"
  using script_input_flush
    [of sample_common
        "calls sample_common
          [On_input Call_spendingPlutusScriptV2, On_input (Call_txIn ''bb'' 1 None None),
           On_input (Call_txInScript ''590a01'')]
          (MeshTxBuilderCore sample_common)"
        "''cc''" 0 None None
        "[On_input Call_spendingPlutusScriptV2, On_input (Call_txIn ''bb'' 1 None None),
           On_input (Call_txInScript ''590a01''), On_input Call_txInInlineDatumPresent,
           On_input (Call_txInRedeemerValue (ObjectContent ''42'') Mesh None),
           On_input (Call_txIn ''cc'' 0 None None), On_finalize Call_queueAllLastItem]"]
  by (simp add: builder_defs sample_common_def)

section \<open>The evaluation reconciler on the slots\<close>





































text \<open>
  Beyond the range of the theorem the floor of the double product and the floor of
  the exact product part: at \<open>511772684928469\<close> and at \<open>1000000000000009\<close> the
  double product is one more, and for the negative \<open>- 50\<close> it is one less.
\<close>

lemma scaledBudget_beyond_range:
  "scaledBudget (round_double (11 / 10)) \<lparr> mem = 511772684928469, steps = 1000000000000009 \<rparr>
     = \<lparr> mem = 562949953421316, steps = 1100000000000010 \<rparr>
   \<and> \<lfloor>511772684928469 * (11 / 10 :: rat)\<rfloor> = 562949953421315
   \<and> \<lfloor>1000000000000009 * (11 / 10 :: rat)\<rfloor> = 1100000000000009
   \<and> scaledBudget (round_double (11 / 10)) \<lparr> mem = - 50, steps = - 1 \<rparr>
     = \<lparr> mem = - 56, steps = - 2 \<rparr>
   \<and> \<lfloor>- 50 * (11 / 10 :: rat)\<rfloor> = - 55"
  by code_simp


section \<open>Selection strategy\<close>

text \<open>
  Claim C2 on the code. With the strategy \<open>"keepRelevant"\<close>,
  \<open>addUtxosFromSelection\<close> calls \<open>keepRelevant\<close>, and when that has not raised it calls
  \<open>largestFirst\<close> on the same arguments and appends, as key inputs, what
  \<open>largestFirst\<close> selected; the selection of \<open>keepRelevant\<close> is not used.
\<close>

theorem addUtxosFromSelection_keepRelevant_falls_through:
  assumes "strategy (selectionConfig (meshTxBuilderBody s)) = ''keepRelevant''"
  shows "addUtxosFromSelection c s =
     (case keepRelevant c (threshold (selectionConfig (meshTxBuilderBody s)))
             (includeTxFees (selectionConfig (meshTxBuilderBody s)))
             (requiredAssets (meshTxBuilderBody s)) (extraInputs (meshTxBuilderBody s)) of
        Inl e \<Rightarrow> (Some e, s)
      | Inr kept \<Rightarrow>
          (case largestFirst c (threshold (selectionConfig (meshTxBuilderBody s)))
                  (includeTxFees (selectionConfig (meshTxBuilderBody s)))
                  (requiredAssets (meshTxBuilderBody s)) (extraInputs (meshTxBuilderBody s)) of
             Inl e \<Rightarrow> (Some e, s)
           | Inr largest \<Rightarrow>
               (None, s\<lparr> meshTxBuilderBody :=
                           (meshTxBuilderBody s)\<lparr> inputs :=
                              inputs (meshTxBuilderBody s) @ map pubKeyTxIn largest \<rparr> \<rparr>)))"
  using assms
  by (simp add: addUtxosFromSelection_def selectInputs_def Let_def ok_def split: sum.splits)

text \<open>
  On the sample: an output asks for 3 ada and one token; of two candidates with 5 ada
  each, the second holds the token. \<open>keepRelevant\<close> selects the second; the input
  that \<open>addUtxosFromSelection\<close> appends is the first.
\<close>

theorem addUtxosFromSelection_keepRelevant_falls_through_witness:
  "requiredAssets (meshTxBuilderBody (calls sample_common
      [On_output (Call_txOut ''addr_test1vz''
         [\<lparr> unit = ''lovelace'', quantity = 3000000 \<rparr>,
          \<lparr> unit = ''policy1deadbeef'', quantity = 1 \<rparr>]),
       On_global (Call_selectUtxosFrom
         [\<lparr> input_txHash = ''e1'', input_outputIndex = 0, utxo_address = ''addr_test1vq'',
            utxo_amount = [\<lparr> unit = ''lovelace'', quantity = 5000000 \<rparr>],
            utxo_datum = None, utxo_referenceScript = None \<rparr>,
          \<lparr> input_txHash = ''e2'', input_outputIndex = 1, utxo_address = ''addr_test1vq'',
            utxo_amount = [\<lparr> unit = ''lovelace'', quantity = 5000000 \<rparr>,
                           \<lparr> unit = ''policy1deadbeef'', quantity = 1 \<rparr>],
            utxo_datum = None, utxo_referenceScript = None \<rparr>]
         ''keepRelevant'' ''0'' False),
       On_finalize Call_queueAllLastItem]
      (MeshTxBuilderCore sample_common)))
     = [(''lovelace'', 3000000), (''policy1deadbeef'', 1)]
   \<and> keepRelevant sample_common ''0'' False
        [(''lovelace'', 3000000), (''policy1deadbeef'', 1)]
        [\<lparr> input_txHash = ''e1'', input_outputIndex = 0, utxo_address = ''addr_test1vq'',
            utxo_amount = [\<lparr> unit = ''lovelace'', quantity = 5000000 \<rparr>],
            utxo_datum = None, utxo_referenceScript = None \<rparr>,
          \<lparr> input_txHash = ''e2'', input_outputIndex = 1, utxo_address = ''addr_test1vq'',
            utxo_amount = [\<lparr> unit = ''lovelace'', quantity = 5000000 \<rparr>,
                           \<lparr> unit = ''policy1deadbeef'', quantity = 1 \<rparr>],
            utxo_datum = None, utxo_referenceScript = None \<rparr>]
     = Inr [\<lparr> input_txHash = ''e2'', input_outputIndex = 1, utxo_address = ''addr_test1vq'',
            utxo_amount = [\<lparr> unit = ''lovelace'', quantity = 5000000 \<rparr>,
                           \<lparr> unit = ''policy1deadbeef'', quantity = 1 \<rparr>],
            utxo_datum = None, utxo_referenceScript = None \<rparr>]
   \<and> fst (addUtxosFromSelection sample_common (calls sample_common
      [On_output (Call_txOut ''addr_test1vz''
         [\<lparr> unit = ''lovelace'', quantity = 3000000 \<rparr>,
          \<lparr> unit = ''policy1deadbeef'', quantity = 1 \<rparr>]),
       On_global (Call_selectUtxosFrom
         [\<lparr> input_txHash = ''e1'', input_outputIndex = 0, utxo_address = ''addr_test1vq'',
            utxo_amount = [\<lparr> unit = ''lovelace'', quantity = 5000000 \<rparr>],
            utxo_datum = None, utxo_referenceScript = None \<rparr>,
          \<lparr> input_txHash = ''e2'', input_outputIndex = 1, utxo_address = ''addr_test1vq'',
            utxo_amount = [\<lparr> unit = ''lovelace'', quantity = 5000000 \<rparr>,
                           \<lparr> unit = ''policy1deadbeef'', quantity = 1 \<rparr>],
            utxo_datum = None, utxo_referenceScript = None \<rparr>]
         ''keepRelevant'' ''0'' False),
       On_finalize Call_queueAllLastItem]
      (MeshTxBuilderCore sample_common))) = None
   \<and> inputs (meshTxBuilderBody (snd (addUtxosFromSelection sample_common (calls sample_common
      [On_output (Call_txOut ''addr_test1vz''
         [\<lparr> unit = ''lovelace'', quantity = 3000000 \<rparr>,
          \<lparr> unit = ''policy1deadbeef'', quantity = 1 \<rparr>]),
       On_global (Call_selectUtxosFrom
         [\<lparr> input_txHash = ''e1'', input_outputIndex = 0, utxo_address = ''addr_test1vq'',
            utxo_amount = [\<lparr> unit = ''lovelace'', quantity = 5000000 \<rparr>],
            utxo_datum = None, utxo_referenceScript = None \<rparr>,
          \<lparr> input_txHash = ''e2'', input_outputIndex = 1, utxo_address = ''addr_test1vq'',
            utxo_amount = [\<lparr> unit = ''lovelace'', quantity = 5000000 \<rparr>,
                           \<lparr> unit = ''policy1deadbeef'', quantity = 1 \<rparr>],
            utxo_datum = None, utxo_referenceScript = None \<rparr>]
         ''keepRelevant'' ''0'' False),
       On_finalize Call_queueAllLastItem]
      (MeshTxBuilderCore sample_common)))))
     = [PubKey \<lparr> txHash = ''e1'', txIndex = 0,
                 amount = Some [\<lparr> unit = ''lovelace'', quantity = 5000000 \<rparr>],
                 address = Some ''addr_test1vq'' \<rparr>]"
  using addUtxosFromSelection_keepRelevant_falls_through
    [of "calls sample_common
      [On_output (Call_txOut ''addr_test1vz''
         [\<lparr> unit = ''lovelace'', quantity = 3000000 \<rparr>,
          \<lparr> unit = ''policy1deadbeef'', quantity = 1 \<rparr>]),
       On_global (Call_selectUtxosFrom
         [\<lparr> input_txHash = ''e1'', input_outputIndex = 0, utxo_address = ''addr_test1vq'',
            utxo_amount = [\<lparr> unit = ''lovelace'', quantity = 5000000 \<rparr>],
            utxo_datum = None, utxo_referenceScript = None \<rparr>,
          \<lparr> input_txHash = ''e2'', input_outputIndex = 1, utxo_address = ''addr_test1vq'',
            utxo_amount = [\<lparr> unit = ''lovelace'', quantity = 5000000 \<rparr>,
                           \<lparr> unit = ''policy1deadbeef'', quantity = 1 \<rparr>],
            utxo_datum = None, utxo_referenceScript = None \<rparr>]
         ''keepRelevant'' ''0'' False),
       On_finalize Call_queueAllLastItem]
      (MeshTxBuilderCore sample_common)" sample_common]
  by (simp add: builder_defs sample_common_def selectUtxosFrom_def requiredAssets_def
      addAsset_def subAsset_def existingQuantity_def toNumber_exact plus_double_exact
      minus_double_exact spec_keepRelevant_def spec_largestFirst_def
      relevant_def lovelaceOf_def decimal_def pubKeyTxIn_def)

end
